theory Spec2Isabelle
  imports Complex_Main "HOL-Library.Word" "HOL-Library.Sublist" "HOL-Library.Multiset"
begin

section \<open>JavaScript strings and JSON values\<close>

text \<open>
  The storage layer (\<^verbatim>\<open>SQLiteStorage\<close> with its helpers \<^verbatim>\<open>JsonUtils\<close>,
  \<^verbatim>\<open>TimestampUtils\<close> and \<^verbatim>\<open>DatabaseUtils\<close>) is TypeScript. A JavaScript string is a
  sequence of 16-bit code units, so a string is a list of 16-bit words here. \<open>js\<close> turns
  an ASCII literal of the source into that form.
\<close>

type_synonym codeunit = "16 word"
type_synonym jsstring = "codeunit list"

definition js :: "string \<Rightarrow> jsstring" where
  "js s = map (\<lambda>c. of_nat (of_char c)) s"

text \<open>
  The values \<^verbatim>\<open>JSON.parse\<close> can return. A number keeps the text of its literal: no
  operation of the layer computes with a parsed number.
\<close>

datatype json = JNull | JBool bool | JNum jsstring | JStr jsstring
  | JArr "json list" | JObj "(jsstring \<times> json) list"

subsection \<open>\<^verbatim>\<open>JSON.parse\<close>\<close>

text \<open>
  \<^verbatim>\<open>JSON.parse\<close> is a built-in of the language. It is modelled by the JSON grammar
  (ECMA-404): a lexer over the code units and a pushdown recogniser over the tokens.
  \<open>None\<close> is the \<^verbatim>\<open>SyntaxError\<close> that \<^verbatim>\<open>JSON.parse\<close> throws.
\<close>

datatype token = LBrack | RBrack | LBrace | RBrace | Colon | Comma
  | TStr jsstring | TNum jsstring | TTrue | TFalse | TNull

definition hexval :: "codeunit \<Rightarrow> nat option" where
  "hexval c = (if 0x30 \<le> c \<and> c \<le> 0x39 then Some (unat c - 0x30)
     else if 0x61 \<le> c \<and> c \<le> 0x66 then Some (unat c - 0x61 + 10)
     else if 0x41 \<le> c \<and> c \<le> 0x46 then Some (unat c - 0x41 + 10)
     else None)"

definition hex4 :: "codeunit \<Rightarrow> codeunit \<Rightarrow> codeunit \<Rightarrow> codeunit \<Rightarrow> codeunit option" where
  "hex4 a b c d = (case (hexval a, hexval b, hexval c, hexval d) of
      (Some p, Some q, Some r, Some s) \<Rightarrow> Some (of_nat (((p * 16 + q) * 16 + r) * 16 + s))
    | _ \<Rightarrow> None)"

text \<open>The one-letter escapes: \<^verbatim>\<open>\" \\ \/ \b \f \n \r \t\<close>.\<close>

definition unescape :: "codeunit \<Rightarrow> codeunit option" where
  "unescape e = (if e = 0x22 then Some 0x22 else if e = 0x5C then Some 0x5C
     else if e = 0x2F then Some 0x2F else if e = 0x62 then Some 0x08
     else if e = 0x66 then Some 0x0C else if e = 0x6E then Some 0x0A
     else if e = 0x72 then Some 0x0D else if e = 0x74 then Some 0x09 else None)"

text \<open>
  \<open>lex_string\<close> reads a string literal after its opening quote (\<open>0x22\<close>) and returns
  the string and the rest of the input. A backslash is \<open>0x5C\<close>, \<^verbatim>\<open>u\<close> is \<open>0x75\<close>; a
  control character below \<open>0x20\<close> may not stand unescaped.
\<close>

fun lex_string :: "jsstring \<Rightarrow> (jsstring \<times> jsstring) option" where
  "lex_string [] = None"
| "lex_string (c # cs) =
    (if c = 0x22 then Some ([], cs)
     else if c = 0x5C then
       (case cs of
          [] \<Rightarrow> None
        | e # es \<Rightarrow>
            if e = 0x75 then
              (case es of
                 h1 # h2 # h3 # h4 # r \<Rightarrow>
                   (case hex4 h1 h2 h3 h4 of
                      None \<Rightarrow> None
                    | Some w \<Rightarrow> map_option (apfst ((#) w)) (lex_string r))
               | _ \<Rightarrow> None)
            else
              (case unescape e of
                 None \<Rightarrow> None
               | Some w \<Rightarrow> map_option (apfst ((#) w)) (lex_string es)))
     else if c < 0x20 then None
     else map_option (apfst ((#) c)) (lex_string cs))"

text \<open>JSON's white space is the space, the tab, the line feed and the carriage return.\<close>

definition is_json_ws :: "codeunit \<Rightarrow> bool" where
  "is_json_ws c = (c = 0x20 \<or> c = 0x09 \<or> c = 0x0A \<or> c = 0x0D)"

definition is_digit :: "codeunit \<Rightarrow> bool" where
  "is_digit c = (0x30 \<le> c \<and> c \<le> 0x39)"

definition is_num_char :: "codeunit \<Rightarrow> bool" where
  "is_num_char c = (is_digit c \<or> c = 0x2D \<or> c = 0x2B \<or> c = 0x2E \<or> c = 0x65 \<or> c = 0x45)"

definition is_lower :: "codeunit \<Rightarrow> bool" where
  "is_lower c = (0x61 \<le> c \<and> c \<le> 0x7A)"

text \<open>
  A number is \<^verbatim>\<open>-? (0 | [1-9][0-9]*) (. [0-9]+)? ([eE] [+-]? [0-9]+)?\<close>. Each part
  returns what is left of the literal.
\<close>

definition digits1 :: "jsstring \<Rightarrow> jsstring option" where
  "digits1 s = (if takeWhile is_digit s = [] then None else Some (dropWhile is_digit s))"

definition int_part :: "jsstring \<Rightarrow> jsstring option" where
  "int_part s = (case s of
      [] \<Rightarrow> None
    | c # r \<Rightarrow> if c = 0x30 then Some r
               else if 0x31 \<le> c \<and> c \<le> 0x39 then Some (dropWhile is_digit r)
               else None)"

definition frac_part :: "jsstring \<Rightarrow> jsstring option" where
  "frac_part s = (case s of
      [] \<Rightarrow> Some s
    | c # r \<Rightarrow> if c = 0x2E then digits1 r else Some s)"

definition exp_part :: "jsstring \<Rightarrow> jsstring option" where
  "exp_part s = (case s of
      [] \<Rightarrow> Some s
    | c # r \<Rightarrow>
        if c = 0x65 \<or> c = 0x45 then
          digits1 (case r of [] \<Rightarrow> r | d # r' \<Rightarrow> if d = 0x2B \<or> d = 0x2D then r' else r)
        else Some s)"

definition valid_number :: "jsstring \<Rightarrow> bool" where
  "valid_number s =
    (case int_part (case s of [] \<Rightarrow> s | c # r \<Rightarrow> if c = 0x2D then r else s) of
       None \<Rightarrow> False
     | Some s2 \<Rightarrow>
         (case frac_part s2 of
            None \<Rightarrow> False
          | Some s3 \<Rightarrow> (case exp_part s3 of None \<Rightarrow> False | Some s4 \<Rightarrow> s4 = [])))"

definition literal :: "jsstring \<Rightarrow> token option" where
  "literal w = (if w = js ''true'' then Some TTrue
     else if w = js ''false'' then Some TFalse
     else if w = js ''null'' then Some TNull else None)"

text \<open>
  The lexer. A number or a word is read as the longest run of its characters and then
  checked: no JSON text has two values side by side, so the longest run accepts exactly
  the texts the grammar accepts.
\<close>

function tokenize :: "jsstring \<Rightarrow> token list option" where
  "tokenize [] = Some []"
| "tokenize (c # cs) =
    (if is_json_ws c then tokenize cs
     else if c = 0x5B then map_option ((#) LBrack) (tokenize cs)
     else if c = 0x5D then map_option ((#) RBrack) (tokenize cs)
     else if c = 0x7B then map_option ((#) LBrace) (tokenize cs)
     else if c = 0x7D then map_option ((#) RBrace) (tokenize cs)
     else if c = 0x3A then map_option ((#) Colon) (tokenize cs)
     else if c = 0x2C then map_option ((#) Comma) (tokenize cs)
     else if c = 0x22 then
       (case lex_string cs of
          None \<Rightarrow> None
        | Some (s, rest) \<Rightarrow> map_option ((#) (TStr s)) (tokenize rest))
     else if is_num_char c then
       (if valid_number (c # takeWhile is_num_char cs)
        then map_option ((#) (TNum (c # takeWhile is_num_char cs)))
               (tokenize (dropWhile is_num_char cs))
        else None)
     else if is_lower c then
       (case literal (c # takeWhile is_lower cs) of
          None \<Rightarrow> None
        | Some t \<Rightarrow> map_option ((#) t) (tokenize (dropWhile is_lower cs)))
     else None)"
  by pat_completeness auto
termination
proof -
  have shorter: "lex_string cs = Some (s, rest) \<Longrightarrow> length rest < Suc (length cs)"
    for cs s rest
  proof (induction cs arbitrary: s rest rule: lex_string.induct)
    case 1
    then show ?case by simp
  next
    case (2 c cs)
    then show ?case
      by (fastforce simp: less_Suc_eq_le split: if_splits list.splits option.splits)
  qed
  show ?thesis
    by (relation "measure length")
       (auto simp: less_Suc_eq_le length_dropWhile_le dest: shorter)
qed

text \<open>
  The recogniser keeps a stack of the arrays and objects that are open (their members
  so far in reverse; an object also the key that waits for its value) and what it
  expects next.
\<close>

datatype frame = FArr "json list" | FObj "(jsstring \<times> json) list" "jsstring option"

datatype expect = EValue | EValueOrClose | EKeyOrClose | EKey | EColon | ECommaOrClose
  | EDone json

type_synonym pda = "expect \<times> frame list"

fun push_value :: "json \<Rightarrow> frame list \<Rightarrow> pda option" where
  "push_value v [] = Some (EDone v, [])"
| "push_value v (FArr es # st) = Some (ECommaOrClose, FArr (v # es) # st)"
| "push_value v (FObj ms (Some k) # st) = Some (ECommaOrClose, FObj ((k, v) # ms) None # st)"
| "push_value v (FObj ms None # st) = None"

fun close_array :: "frame list \<Rightarrow> pda option" where
  "close_array (FArr es # st) = push_value (JArr (rev es)) st"
| "close_array _ = None"

fun close_object :: "frame list \<Rightarrow> pda option" where
  "close_object (FObj ms None # st) = push_value (JObj (rev ms)) st"
| "close_object _ = None"

fun begin_value :: "token \<Rightarrow> frame list \<Rightarrow> pda option" where
  "begin_value LBrack st = Some (EValueOrClose, FArr [] # st)"
| "begin_value LBrace st = Some (EKeyOrClose, FObj [] None # st)"
| "begin_value (TStr s) st = push_value (JStr s) st"
| "begin_value (TNum n) st = push_value (JNum n) st"
| "begin_value TTrue st = push_value (JBool True) st"
| "begin_value TFalse st = push_value (JBool False) st"
| "begin_value TNull st = push_value JNull st"
| "begin_value _ st = None"

fun begin_key :: "token \<Rightarrow> frame list \<Rightarrow> pda option" where
  "begin_key (TStr k) (FObj ms None # st) = Some (EColon, FObj ms (Some k) # st)"
| "begin_key _ _ = None"

fun pda_step :: "pda \<Rightarrow> token \<Rightarrow> pda option" where
  "pda_step (EValue, st) t = begin_value t st"
| "pda_step (EValueOrClose, st) t = (if t = RBrack then close_array st else begin_value t st)"
| "pda_step (EKeyOrClose, st) t = (if t = RBrace then close_object st else begin_key t st)"
| "pda_step (EKey, st) t = begin_key t st"
| "pda_step (EColon, st) t = (if t = Colon then Some (EValue, st) else None)"
| "pda_step (ECommaOrClose, st) t =
    (if t = RBrack then close_array st
     else if t = RBrace then close_object st
     else if t = Comma then
       (case st of
          FArr es # st' \<Rightarrow> Some (EValue, st)
        | FObj ms k # st' \<Rightarrow> Some (EKey, st)
        | [] \<Rightarrow> None)
     else None)"
| "pda_step (EDone v, st) t = None"

fun pda_run :: "pda \<Rightarrow> token list \<Rightarrow> json option" where
  "pda_run (EDone v, []) [] = Some v"
| "pda_run p [] = None"
| "pda_run p (t # ts) = (case pda_step p t of None \<Rightarrow> None | Some p' \<Rightarrow> pda_run p' ts)"

definition JSON_parse :: "jsstring \<Rightarrow> json option" where
  "JSON_parse text = (case tokenize text of None \<Rightarrow> None | Some ts \<Rightarrow> pda_run (EValue, []) ts)"

subsection \<open>\<^verbatim>\<open>JSON.stringify\<close> of a list of strings\<close>

text \<open>
  \<^verbatim>\<open>JSON.stringify\<close> of an array of strings is \<^verbatim>\<open>[\<close>, the quoted strings
  separated by commas, \<^verbatim>\<open>]\<close>. Quoting (QuoteJSONString of ECMA-262) escapes the
  quote, the backslash and the control characters, writes a surrogate that has no
  partner as \<^verbatim>\<open>\uXXXX\<close> in lower-case hexadecimal, and copies everything else.
\<close>

definition hexdigit :: "nat \<Rightarrow> codeunit" where
  "hexdigit n = (if n < 10 then of_nat (0x30 + n) else of_nat (0x61 + (n - 10)))"

definition unicode_escape :: "codeunit \<Rightarrow> jsstring" where
  "unicode_escape c =
    [0x5C, 0x75, hexdigit (unat c div 4096), hexdigit (unat c div 256 mod 16),
     hexdigit (unat c div 16 mod 16), hexdigit (unat c mod 16)]"

definition is_high_surrogate :: "codeunit \<Rightarrow> bool" where
  "is_high_surrogate c = (0xD800 \<le> c \<and> c \<le> 0xDBFF)"

definition is_low_surrogate :: "codeunit \<Rightarrow> bool" where
  "is_low_surrogate c = (0xDC00 \<le> c \<and> c \<le> 0xDFFF)"

definition quote_unit :: "codeunit \<Rightarrow> jsstring" where
  "quote_unit c =
    (if c = 0x08 then [0x5C, 0x62]
     else if c = 0x09 then [0x5C, 0x74]
     else if c = 0x0A then [0x5C, 0x6E]
     else if c = 0x0C then [0x5C, 0x66]
     else if c = 0x0D then [0x5C, 0x72]
     else if c = 0x22 then [0x5C, 0x22]
     else if c = 0x5C then [0x5C, 0x5C]
     else if c < 0x20 then unicode_escape c
     else [c])"

fun quote_units :: "jsstring \<Rightarrow> jsstring" where
  "quote_units [] = []"
| "quote_units (c # cs) =
    (if is_high_surrogate c then
       (case cs of
          [] \<Rightarrow> unicode_escape c
        | d # ds \<Rightarrow>
            if is_low_surrogate d then c # d # quote_units ds
            else unicode_escape c @ quote_units cs)
     else if is_low_surrogate c then unicode_escape c @ quote_units cs
     else quote_unit c @ quote_units cs)"

definition QuoteJSONString :: "jsstring \<Rightarrow> jsstring" where
  "QuoteJSONString s = 0x22 # quote_units s @ [0x22]"

fun join_comma :: "jsstring list \<Rightarrow> jsstring" where
  "join_comma [] = []"
| "join_comma [x] = x"
| "join_comma (x # y # r) = x @ 0x2C # join_comma (y # r)"

definition JSON_stringify :: "jsstring list \<Rightarrow> jsstring" where
  "JSON_stringify xs = 0x5B # join_comma (map QuoteJSONString xs) @ [0x5D]"

section \<open>\<^verbatim>\<open>JsonUtils\<close>: the JSON column codec\<close>

text \<open>
  \<^verbatim>\<open>String.prototype.trim\<close> removes white space and line terminators of ECMA-262 at
  both ends: TAB, LF, VT, FF, CR, SP, NBSP, U+1680, U+2000..U+200A, U+2028, U+2029,
  U+202F, U+205F, U+3000 and U+FEFF.
\<close>

definition is_js_whitespace :: "codeunit \<Rightarrow> bool" where
  "is_js_whitespace c =
    (c = 0x09 \<or> c = 0x0A \<or> c = 0x0B \<or> c = 0x0C \<or> c = 0x0D \<or> c = 0x20 \<or> c = 0xA0
     \<or> c = 0x1680 \<or> (0x2000 \<le> c \<and> c \<le> 0x200A) \<or> c = 0x2028 \<or> c = 0x2029
     \<or> c = 0x202F \<or> c = 0x205F \<or> c = 0x3000 \<or> c = 0xFEFF)"

definition trim :: "jsstring \<Rightarrow> jsstring" where
  "trim s = rev (dropWhile is_js_whitespace (rev (dropWhile is_js_whitespace s)))"

text \<open>\<^verbatim>\<open>String.prototype.includes\<close>: the needle occurs as a contiguous run.\<close>

primrec str_includes :: "jsstring \<Rightarrow> jsstring \<Rightarrow> bool" where
  "str_includes [] needle = (needle = [])"
| "str_includes (c # cs) needle = (prefix needle (c # cs) \<or> str_includes cs needle)"

definition startsWith :: "jsstring \<Rightarrow> codeunit \<Rightarrow> bool" where
  "startsWith s c = (case s of [] \<Rightarrow> False | d # _ \<Rightarrow> d = c)"

text \<open>\<^verbatim>\<open>JsonUtils.isUrl\<close>: \<^verbatim>\<open>str.includes('http') || str.includes('www')\<close>.\<close>

definition isUrl :: "jsstring \<Rightarrow> bool" where
  "isUrl str = (str_includes str (js ''http'') \<or> str_includes str (js ''www''))"

text \<open>
  \<^verbatim>\<open>JsonUtils.parseArray(json: string | null)\<close>. The column value is \<open>None\<close> for
  \<^verbatim>\<open>null\<close> and \<open>Some s\<close> for a text. \<open>parseArray_try\<close> is the body of the
  \<^verbatim>\<open>try\<close> block for a non-empty string, \<open>None\<close> when \<^verbatim>\<open>JSON.parse\<close> throws;
  \<open>parseArray\<close> adds the \<^verbatim>\<open>!json\<close> test in front (null and the empty string are
  falsy) and the \<^verbatim>\<open>catch\<close> handler behind, which tests and wraps the untrimmed
  value. The tests \<^verbatim>\<open>Array.isArray(json)\<close> and the last \<^verbatim>\<open>JSON.parse(json)\<close> of the
  block are reached only by a value that is neither null nor a string, which the
  parameter type excludes and a text column never holds. The result is whatever
  \<^verbatim>\<open>JSON.parse\<close> returned, so it is a \<open>json\<close> value and not always a list.
\<close>

definition parseArray_try :: "jsstring \<Rightarrow> json option" where
  "parseArray_try json =
    (let trimmed = trim json in
     if startsWith trimmed 0x5B then JSON_parse trimmed
     else if isUrl trimmed then Some (JArr [JStr trimmed])
     else JSON_parse trimmed)"

definition parseArray :: "jsstring option \<Rightarrow> json" where
  "parseArray json =
    (case json of
       None \<Rightarrow> JArr []
     | Some s \<Rightarrow>
         if s = [] then JArr []
         else (case parseArray_try s of
                 Some v \<Rightarrow> v
               | None \<Rightarrow> if isUrl s then JArr [JStr s] else JArr []))"

text \<open>
  \<^verbatim>\<open>JsonUtils.stringify(data)\<close> is \<^verbatim>\<open>JSON.stringify(data || [])\<close>. The callers pass a
  list of strings or nothing; a list, also the empty one, is truthy.
\<close>

definition stringify :: "jsstring list option \<Rightarrow> jsstring" where
  "stringify data = JSON_stringify (case data of None \<Rightarrow> [] | Some xs \<Rightarrow> xs)"

section \<open>The store\<close>

text \<open>
  A table is the list of its rows. A condition of a \<^verbatim>\<open>WHERE\<close> clause evaluates on a
  row to SQL's three truth values: \<open>None\<close> is \<^verbatim>\<open>NULL\<close>. A statement touches the rows
  on which its condition is true. A table is read in the order of its identifiers,
  which is the order of the list.

  What an operation can raise: a \<^verbatim>\<open>TypeError\<close> of the language, the \<^verbatim>\<open>Error\<close> that
  drizzle throws with a message, and the \<^verbatim>\<open>SqliteError\<close> of a statement that the store
  refuses, with its code. The identifier is the primary key of its table; the other
  constraints are declared in \<^verbatim>\<open>@shared/schema\<close>, which is not part of the sources, and
  are not modelled, no more than a lost connection or the limits of the store on the
  size of a text.
\<close>

datatype js_error = TypeError | Error jsstring | SqliteError jsstring

type_synonym sqlbool = "bool option"
type_synonym 'r cond = "'r \<Rightarrow> sqlbool"

definition sql_and :: "sqlbool list \<Rightarrow> sqlbool" where
  "sql_and bs = (if Some False \<in> set bs then Some False
                 else if None \<in> set bs then None else Some True)"

definition sql_or :: "sqlbool list \<Rightarrow> sqlbool" where
  "sql_or bs = (if Some True \<in> set bs then Some True
                else if None \<in> set bs then None else Some False)"

text \<open>drizzle's \<^verbatim>\<open>and(...conditions)\<close>, \<^verbatim>\<open>or(...conditions)\<close> and \<^verbatim>\<open>eq(column, value)\<close>.\<close>

definition and_conditions :: "'r cond list \<Rightarrow> 'r cond" where
  "and_conditions conditions = (\<lambda>r. sql_and (map (\<lambda>c. c r) conditions))"

definition or_conditions :: "'r cond list \<Rightarrow> 'r cond" where
  "or_conditions conditions = (\<lambda>r. sql_or (map (\<lambda>c. c r) conditions))"

definition eq :: "('r \<Rightarrow> 'a) \<Rightarrow> 'a \<Rightarrow> 'r cond" where
  "eq column v = (\<lambda>r. Some (column r = v))"

definition ge :: "('r \<Rightarrow> int) \<Rightarrow> int \<Rightarrow> 'r cond" where
  "ge column v = (\<lambda>r. Some (column r \<ge> v))"

definition le :: "('r \<Rightarrow> int) \<Rightarrow> int \<Rightarrow> 'r cond" where
  "le column v = (\<lambda>r. Some (column r \<le> v))"

definition between :: "('r \<Rightarrow> int) \<Rightarrow> int \<Rightarrow> int \<Rightarrow> 'r cond" where
  "between column lo hi = (\<lambda>r. Some (lo \<le> column r \<and> column r \<le> hi))"

text \<open>
  A string reaches the store as a bound parameter in UTF-8. The encoder writes a
  surrogate pair as the one character it stands for and a surrogate without its partner
  as U+FFFD; the store keeps the text as it is, a U+0000 included, and hands it back
  decoded. \<open>bind_text\<close> is the string the store holds for a JavaScript string and
  \<open>codepoints\<close> the characters of that text.
\<close>

fun bind_text :: "jsstring \<Rightarrow> jsstring" where
  "bind_text [] = []"
| "bind_text [c] = (if is_high_surrogate c \<or> is_low_surrogate c then [0xFFFD] else [c])"
| "bind_text (c # d # r) =
    (if is_high_surrogate c \<and> is_low_surrogate d then c # d # bind_text r
     else if is_high_surrogate c \<or> is_low_surrogate c then 0xFFFD # bind_text (d # r)
     else c # bind_text (d # r))"


fun codepoints :: "jsstring \<Rightarrow> nat list" where
  "codepoints [] = []"
| "codepoints [c] = (if is_high_surrogate c \<or> is_low_surrogate c then [0xFFFD] else [unat c])"
| "codepoints (c # d # r) =
    (if is_high_surrogate c \<and> is_low_surrogate d
     then (0x10000 + (unat c - 0xD800) * 0x400 + (unat d - 0xDC00)) # codepoints r
     else if is_high_surrogate c \<or> is_low_surrogate c then 0xFFFD # codepoints (d # r)
     else unat c # codepoints (d # r))"

text \<open>
  SQL's \<^verbatim>\<open>LIKE\<close>, as SQLite evaluates it with no \<^verbatim>\<open>ESCAPE\<close> clause. SQLite reads the
  pattern and the text as C strings, so each ends before its first U+0000
  (\<open>c_string\<close>), and compares them character by character: \<^verbatim>\<open>%\<close> (\<open>0x25\<close>) in the
  pattern matches any run of characters, \<^verbatim>\<open>_\<close> (\<open>0x5F\<close>) matches any one character,
  every other character matches itself. SQLite compares the ASCII letters without
  regard to case unless \<^verbatim>\<open>PRAGMA case_sensitive_like\<close> is on; the module that opens
  the connection (\<^verbatim>\<open>./db-sqlite\<close>) is not part of the sources, so the setting is a
  parameter.
\<close>

definition c_string :: "nat list \<Rightarrow> nat list" where
  "c_string chars = takeWhile (\<lambda>c. c \<noteq> 0) chars"

definition like_fold :: "bool \<Rightarrow> nat \<Rightarrow> nat" where
  "like_fold case_sensitive c =
    (if \<not> case_sensitive \<and> 0x41 \<le> c \<and> c \<le> 0x5A then c + 0x20 else c)"

fun like_match :: "bool \<Rightarrow> nat list \<Rightarrow> nat list \<Rightarrow> bool" where
  "like_match cs [] s = (s = [])"
| "like_match cs (p # ps) s =
    (if p = 0x25 then
       like_match cs ps s \<or> (case s of [] \<Rightarrow> False | c # r \<Rightarrow> like_match cs (p # ps) r)
     else
       (case s of
          [] \<Rightarrow> False
        | c # r \<Rightarrow> (p = 0x5F \<or> like_fold cs p = like_fold cs c) \<and> like_match cs ps r))"

definition sqlite_like :: "bool \<Rightarrow> jsstring \<Rightarrow> jsstring \<Rightarrow> bool" where
  "sqlite_like cs pattern text =
    like_match cs (c_string (codepoints pattern)) (c_string (codepoints text))"

text \<open>
  drizzle's \<^verbatim>\<open>like(column, pattern)\<close> on a column that is never null and on one that
  can be. The callers build the pattern as \<^verbatim>\<open>`%${term}%`\<close>.
\<close>

definition like :: "bool \<Rightarrow> ('r \<Rightarrow> jsstring) \<Rightarrow> jsstring \<Rightarrow> 'r cond" where
  "like cs column pattern = (\<lambda>r. Some (sqlite_like cs pattern (column r)))"

definition like_nullable :: "bool \<Rightarrow> ('r \<Rightarrow> jsstring option) \<Rightarrow> jsstring \<Rightarrow> 'r cond" where
  "like_nullable cs column pattern = (\<lambda>r. map_option (sqlite_like cs pattern) (column r))"

definition contains_pattern :: "jsstring \<Rightarrow> jsstring" where
  "contains_pattern term = 0x25 # term @ [0x25]"



text \<open>
  The statements: \<^verbatim>\<open>select().from(t).where(c)\<close>, \<^verbatim>\<open>update(t).set(f).where(c)\<close> with the
  rows its \<^verbatim>\<open>returning()\<close> yields, and \<^verbatim>\<open>delete(t).where(c)\<close>. \<open>first\<close> is the array
  destructuring \<^verbatim>\<open>const [x] = rows\<close>, \<open>None\<close> for \<^verbatim>\<open>undefined\<close>.
\<close>

definition select_where :: "'r cond \<Rightarrow> 'r list \<Rightarrow> 'r list" where
  "select_where c rows = filter (\<lambda>r. c r = Some True) rows"

definition update_where :: "'r cond \<Rightarrow> ('r \<Rightarrow> 'r) \<Rightarrow> 'r list \<Rightarrow> 'r list" where
  "update_where c f rows = map (\<lambda>r. if c r = Some True then f r else r) rows"

definition returning :: "'r cond \<Rightarrow> ('r \<Rightarrow> 'r) \<Rightarrow> 'r list \<Rightarrow> 'r list" where
  "returning c f rows = map f (select_where c rows)"

definition delete_where :: "'r cond \<Rightarrow> 'r list \<Rightarrow> 'r list" where
  "delete_where c rows = filter (\<lambda>r. c r \<noteq> Some True) rows"

definition first :: "'a list \<Rightarrow> 'a option" where
  "first rows = (case rows of [] \<Rightarrow> None | x # _ \<Rightarrow> Some x)"

text \<open>
  Modelled from the spec: every table has a single integer auto-increment identifier;
  its declaration in \<^verbatim>\<open>@shared/schema\<close> is not part of the sources, and the
  identifier is taken to be the primary key, \<open>key\<close>.
  \<^verbatim>\<open>update(t).set(f).where(eq(t.id, i)).returning()\<close> on such a table: the store
  refuses the statement when a row it changes would take the identifier of a row it
  leaves; a row whose identifier changes moves to the place of its new identifier. The
  result is the rows of \<^verbatim>\<open>returning()\<close> and the new table.
\<close>

definition update_by_id ::
  "('r \<Rightarrow> int) \<Rightarrow> int \<Rightarrow> ('r \<Rightarrow> 'r) \<Rightarrow> 'r list \<Rightarrow> js_error + ('r list \<times> 'r list)" where
  "update_by_id key i f rows =
    (let updated = returning (eq key i) f rows;
         kept = delete_where (eq key i) rows;
         table = update_where (eq key i) f rows
     in if \<exists>u\<in>set updated. key u \<in> set (map key kept)
        then Inl (SqliteError (js ''SQLITE_CONSTRAINT_PRIMARYKEY''))
        else Inr (updated, if map key table = map key rows then table
                           else sort_key key table))"

section \<open>The tables\<close>

text \<open>
  Modelled from the spec: the row types of \<^verbatim>\<open>@shared/schema\<close> (\<^verbatim>\<open>User\<close>, \<^verbatim>\<open>Tender\<close>,
  \<^verbatim>\<open>TenderBid\<close>, \<^verbatim>\<open>MarketplaceListing\<close>, \<^verbatim>\<open>Review\<close>, \<^verbatim>\<open>DeliveryOrder\<close>,
  \<^verbatim>\<open>EstimateItem\<close>, \<^verbatim>\<open>Crew\<close>) are imported by the storage class and are not part of
  the sources. Each record has the columns the spec's data model names and the ones the
  storage class reads or writes. Identifiers, counters, amounts and ratings are
  integers; an instant is an integer on the clock's scale. The columns that hold a
  JSON text are nullable text in a stored row and hold the decoded value in a record
  the storage class returns, so the record type is polymorphic in them.
\<close>

type_synonym instant = int

record User =
  u_id :: int
  u_username :: jsstring
  u_email :: jsstring
  u_fullName :: jsstring
  u_userType :: jsstring
  u_rating :: int
  u_completedProjects :: int
  u_walletBalance :: int
  u_createdAt :: instant
  u_updatedAt :: instant

record ('i, 'p) Tender =
  t_id :: int
  t_userId :: int
  t_title :: jsstring
  t_description :: jsstring
  t_category :: jsstring
  t_location :: jsstring
  t_budget :: int
  t_deadline :: instant
  t_status :: jsstring
  t_personType :: jsstring
  t_images :: 'i
  t_requiredProfessions :: 'p
  t_viewCount :: int
  t_createdAt :: instant
  t_updatedAt :: instant

type_synonym TenderRow = "(jsstring option, jsstring option) Tender"

record TenderBid =
  b_id :: int
  b_tenderId :: int
  b_userId :: int
  b_amount :: int
  b_description :: jsstring
  b_isAccepted :: bool
  b_createdAt :: instant

record 'i MarketplaceListing =
  l_id :: int
  l_userId :: int
  l_title :: jsstring
  l_description :: jsstring
  l_category :: jsstring
  l_subcategory :: jsstring
  l_listingType :: jsstring
  l_price :: int
  l_location :: jsstring
  l_images :: 'i
  l_viewCount :: int
  l_createdAt :: instant
  l_updatedAt :: instant

type_synonym ListingRow = "jsstring option MarketplaceListing"

record Review =
  r_id :: int
  r_authorId :: int
  r_recipientId :: int
  r_rating :: int
  r_comment :: jsstring
  r_createdAt :: instant

record DeliveryOrder =
  o_id :: int
  o_userId :: int
  o_status :: jsstring
  o_trackingCode :: "jsstring option"
  o_createdAt :: instant
  o_updatedAt :: instant

record EstimateItem =
  ei_id :: int
  ei_estimateId :: int

record Crew =
  c_id :: int
  c_ownerId :: int
  c_name :: jsstring
  c_description :: "jsstring option"
  c_location :: jsstring
  c_specialization :: jsstring
  c_experienceYears :: int
  c_isVerified :: bool
  c_isAvailable :: bool
  c_createdAt :: instant
  c_updatedAt :: instant

text \<open>
  The state of the store: the connection's \<^verbatim>\<open>LIKE\<close> setting and the tables. Every
  operation takes the state and returns its result with the new state; an operation that
  reads the clock (\<^verbatim>\<open>TimestampUtils.now()\<close>) takes the instant as \<open>now\<close>.
\<close>

record Database =
  case_sensitive_like :: bool
  users :: "User list"
  tenders :: "TenderRow list"
  tenderBids :: "TenderBid list"
  marketplaceListings :: "ListingRow list"
  reviews :: "Review list"
  deliveryOrders :: "DeliveryOrder list"
  estimateItems :: "EstimateItem list"
  crews :: "Crew list"

text \<open>
  The object spread \<^verbatim>\<open>{...tender, images: f(tender.images), requiredProfessions:
  g(tender.requiredProfessions)}\<close>: every other field is copied.
\<close>

definition map_Tender :: "('i \<Rightarrow> 'j) \<Rightarrow> ('p \<Rightarrow> 'q) \<Rightarrow> ('i, 'p) Tender \<Rightarrow> ('j, 'q) Tender" where
  "map_Tender f g t =
    \<lparr>t_id = t_id t, t_userId = t_userId t, t_title = t_title t,
     t_description = t_description t, t_category = t_category t,
     t_location = t_location t, t_budget = t_budget t, t_deadline = t_deadline t,
     t_status = t_status t, t_personType = t_personType t, t_images = f (t_images t),
     t_requiredProfessions = g (t_requiredProfessions t), t_viewCount = t_viewCount t,
     t_createdAt = t_createdAt t, t_updatedAt = t_updatedAt t\<rparr>"

definition map_Listing :: "('i \<Rightarrow> 'j) \<Rightarrow> 'i MarketplaceListing \<Rightarrow> 'j MarketplaceListing" where
  "map_Listing f l =
    \<lparr>l_id = l_id l, l_userId = l_userId l, l_title = l_title l,
     l_description = l_description l, l_category = l_category l,
     l_subcategory = l_subcategory l, l_listingType = l_listingType l,
     l_price = l_price l, l_location = l_location l, l_images = f (l_images l),
     l_viewCount = l_viewCount l, l_createdAt = l_createdAt l,
     l_updatedAt = l_updatedAt l\<rparr>"

section \<open>Partial updates\<close>

text \<open>
  \<^verbatim>\<open>Partial<Tender>\<close> and \<^verbatim>\<open>Partial<Crew>\<close>: a field is \<open>None\<close> when the payload has no
  such key. The images of a tender payload are a list of strings or \<^verbatim>\<open>null\<close>.
  \<open>patched new old\<close> is the value of a column after \<^verbatim>\<open>set(data)\<close>, and
  \<open>patched_text\<close> that of a text column, which holds the payload's string as the store
  receives it.
\<close>

record TenderPatch =
  tp_id :: "int option"
  tp_userId :: "int option"
  tp_title :: "jsstring option"
  tp_description :: "jsstring option"
  tp_category :: "jsstring option"
  tp_location :: "jsstring option"
  tp_budget :: "int option"
  tp_deadline :: "instant option"
  tp_status :: "jsstring option"
  tp_personType :: "jsstring option"
  tp_images :: "jsstring list option option"
  tp_requiredProfessions :: "jsstring option option"
  tp_viewCount :: "int option"
  tp_createdAt :: "instant option"
  tp_updatedAt :: "instant option"

record CrewPatch =
  cp_id :: "int option"
  cp_ownerId :: "int option"
  cp_name :: "jsstring option"
  cp_description :: "jsstring option option"
  cp_location :: "jsstring option"
  cp_specialization :: "jsstring option"
  cp_experienceYears :: "int option"
  cp_isVerified :: "bool option"
  cp_isAvailable :: "bool option"
  cp_createdAt :: "instant option"
  cp_updatedAt :: "instant option"

definition patched :: "'a option \<Rightarrow> 'a \<Rightarrow> 'a" where
  "patched new old = (case new of None \<Rightarrow> old | Some v \<Rightarrow> v)"

definition patched_text :: "jsstring option \<Rightarrow> jsstring \<Rightarrow> jsstring" where
  "patched_text new old = (case new of None \<Rightarrow> old | Some v \<Rightarrow> bind_text v)"

definition patched_nullable ::
  "jsstring option option \<Rightarrow> jsstring option \<Rightarrow> jsstring option" where
  "patched_nullable new old = (case new of None \<Rightarrow> old | Some v \<Rightarrow> map_option bind_text v)"

text \<open>
  \<^verbatim>\<open>updateTender\<close> copies the payload and, \<^verbatim>\<open>if (data.images)\<close>, replaces the images by
  their JSON text; a \<^verbatim>\<open>null\<close> is falsy and stays. \<open>encode_images\<close> is the value of
  \<^verbatim>\<open>data.images\<close> after that step and \<open>set_tender\<close> the \<^verbatim>\<open>set(data)\<close> on one row.
\<close>

definition encode_images :: "jsstring list option option \<Rightarrow> jsstring option option" where
  "encode_images images =
    (case images of
       None \<Rightarrow> None
     | Some None \<Rightarrow> Some None
     | Some (Some xs) \<Rightarrow> Some (Some (stringify (Some xs))))"

definition set_tender :: "TenderPatch \<Rightarrow> TenderRow \<Rightarrow> TenderRow" where
  "set_tender d t =
    \<lparr>t_id = patched (tp_id d) (t_id t),
     t_userId = patched (tp_userId d) (t_userId t),
     t_title = patched_text (tp_title d) (t_title t),
     t_description = patched_text (tp_description d) (t_description t),
     t_category = patched_text (tp_category d) (t_category t),
     t_location = patched_text (tp_location d) (t_location t),
     t_budget = patched (tp_budget d) (t_budget t),
     t_deadline = patched (tp_deadline d) (t_deadline t),
     t_status = patched_text (tp_status d) (t_status t),
     t_personType = patched_text (tp_personType d) (t_personType t),
     t_images = patched_nullable (encode_images (tp_images d)) (t_images t),
     t_requiredProfessions =
       patched_nullable (tp_requiredProfessions d) (t_requiredProfessions t),
     t_viewCount = patched (tp_viewCount d) (t_viewCount t),
     t_createdAt = patched (tp_createdAt d) (t_createdAt t),
     t_updatedAt = patched (tp_updatedAt d) (t_updatedAt t)\<rparr>"

text \<open>
  A payload with no key, or with no key whose value is defined: drizzle's \<^verbatim>\<open>set\<close>
  throws \<^verbatim>\<open>Error("No values to set")\<close> on it before any statement runs.
\<close>

definition names_no_column :: "TenderPatch \<Rightarrow> bool" where
  "names_no_column d =
    (tp_id d = None \<and> tp_userId d = None \<and> tp_title d = None \<and> tp_description d = None
     \<and> tp_category d = None \<and> tp_location d = None \<and> tp_budget d = None
     \<and> tp_deadline d = None \<and> tp_status d = None \<and> tp_personType d = None
     \<and> tp_images d = None \<and> tp_requiredProfessions d = None \<and> tp_viewCount d = None
     \<and> tp_createdAt d = None \<and> tp_updatedAt d = None)"

definition set_crew :: "CrewPatch \<Rightarrow> Crew \<Rightarrow> Crew" where
  "set_crew d c =
    \<lparr>c_id = patched (cp_id d) (c_id c),
     c_ownerId = patched (cp_ownerId d) (c_ownerId c),
     c_name = patched_text (cp_name d) (c_name c),
     c_description = patched_nullable (cp_description d) (c_description c),
     c_location = patched_text (cp_location d) (c_location c),
     c_specialization = patched_text (cp_specialization d) (c_specialization c),
     c_experienceYears = patched (cp_experienceYears d) (c_experienceYears c),
     c_isVerified = patched (cp_isVerified d) (c_isVerified c),
     c_isAvailable = patched (cp_isAvailable d) (c_isAvailable c),
     c_createdAt = patched (cp_createdAt d) (c_createdAt c),
     c_updatedAt = patched (cp_updatedAt d) (c_updatedAt c)\<rparr>"

section \<open>\<^verbatim>\<open>SQLiteStorage\<close>: the operations\<close>

subsection \<open>Updates\<close>

text \<open>
  \<^verbatim>\<open>updateTender(id, tenderData)\<close>: one \<^verbatim>\<open>update(tenders).set(data).where(eq(tenders.id,
  id)).returning()\<close>; \<^verbatim>\<open>undefined\<close> when no row came back, else the row with its
  images decoded. The function does not read the clock. An error of \<^verbatim>\<open>set\<close> or of the
  statement is raised to the caller as it is, and the store stays as it was.
\<close>

definition updateTender ::
  "int \<Rightarrow> TenderPatch \<Rightarrow> Database
    \<Rightarrow> (js_error + (json, jsstring option) Tender option) \<times> Database" where
  "updateTender id' tenderData db =
    (if names_no_column tenderData then (Inl (Error (js ''No values to set'')), db)
     else
       (case update_by_id t_id id' (set_tender tenderData) (tenders db) of
          Inl e \<Rightarrow> (Inl e, db)
        | Inr (updated, rows) \<Rightarrow>
            (case first updated of
               None \<Rightarrow> (Inr None, db\<lparr>tenders := rows\<rparr>)
             | Some updatedTender \<Rightarrow>
                 (Inr (Some (map_Tender parseArray (\<lambda>p. p) updatedTender)),
                  db\<lparr>tenders := rows\<rparr>))))"

text \<open>
  \<^verbatim>\<open>updateCrew(id, crewData)\<close>: \<^verbatim>\<open>data = {...crewData, updatedAt: TimestampUtils.now()}\<close>,
  then the same statement on \<^verbatim>\<open>crews\<close>. The payload of the statement always names
  \<^verbatim>\<open>updatedAt\<close>.
\<close>

definition updateCrew ::
  "instant \<Rightarrow> int \<Rightarrow> CrewPatch \<Rightarrow> Database \<Rightarrow> (js_error + Crew option) \<times> Database" where
  "updateCrew now id' crewData db =
    (let data = crewData\<lparr>cp_updatedAt := Some now\<rparr> in
     case update_by_id c_id id' (set_crew data) (crews db) of
       Inl e \<Rightarrow> (Inl e, db)
     | Inr (updated, rows) \<Rightarrow> (Inr (first updated), db\<lparr>crews := rows\<rparr>))"


subsection \<open>Accepting a bid\<close>

text \<open>
  \<^verbatim>\<open>acceptTenderBid(bidId)\<close>: select the bid, return \<^verbatim>\<open>undefined\<close> when there is none;
  set the status of the tender the bid belongs to; set the flag of the bid and return
  the first row of that update.
\<close>

definition acceptTenderBid :: "int \<Rightarrow> Database \<Rightarrow> TenderBid option \<times> Database" where
  "acceptTenderBid bidId db =
    (case first (select_where (eq b_id bidId) (tenderBids db)) of
       None \<Rightarrow> (None, db)
     | Some bid \<Rightarrow>
         (let db1 = db\<lparr>tenders := update_where (eq t_id (b_tenderId bid))
                          (\<lambda>t. t\<lparr>t_status := js ''in_progress''\<rparr>) (tenders db)\<rparr>;
              updated = returning (eq b_id bidId) (\<lambda>b. b\<lparr>b_isAccepted := True\<rparr>)
                          (tenderBids db1);
              db2 = db1\<lparr>tenderBids := update_where (eq b_id bidId)
                          (\<lambda>b. b\<lparr>b_isAccepted := True\<rparr>) (tenderBids db1)\<rparr>
          in (first updated, db2)))"

subsection \<open>The rating of a user\<close>

text \<open>
  \<^verbatim>\<open>Math.round\<close> rounds to the nearest integer, a half towards \<open>+\<infinity>\<close>. The numbers of
  JavaScript are doubles. The sum and the quotient \<^verbatim>\<open>totalRating /
  userReviews.length\<close> are taken here as the exact integer and the exact rational; the
  doubles that JavaScript computes are that sum, and a quotient on the same side of every
  half as the exact one, while the absolute values of the ratings add up to less than
  \<open>2\<^sup>5\<^sup>2\<close>, which is what \<open>exact_ratings\<close> says of a list of reviews. Beyond that
  bound the model says nothing of the code. \<^verbatim>\<open>updatedUser.rating\<close> throws a \<^verbatim>\<open>TypeError\<close>
  when the update returned no row.
\<close>

definition exact_ratings :: "Review list \<Rightarrow> bool" where
  "exact_ratings rs = (sum_list (map (\<lambda>r. \<bar>r_rating r\<bar>) rs) < 2 ^ 52)"

definition Math_round :: "rat \<Rightarrow> int" where
  "Math_round x = \<lfloor>x + 1 / 2\<rfloor>"

definition updateUserRating :: "int \<Rightarrow> Database \<Rightarrow> (js_error + int) \<times> Database" where
  "updateUserRating userId db =
    (let userReviews = select_where (eq r_recipientId userId) (reviews db) in
     if length userReviews = 0 then (Inr 0, db)
     else
       (let totalRating = foldl (\<lambda>sum review. sum + r_rating review) 0 userReviews;
            averageRating = Math_round (of_int totalRating / of_int (int (length userReviews)));
            updated = returning (eq u_id userId) (\<lambda>u. u\<lparr>u_rating := averageRating\<rparr>) (users db);
            db' = db\<lparr>users := update_where (eq u_id userId)
                         (\<lambda>u. u\<lparr>u_rating := averageRating\<rparr>) (users db)\<rparr>
        in case first updated of
             None \<Rightarrow> (Inl TypeError, db')
           | Some updatedUser \<Rightarrow> (Inr (u_rating updatedUser), db')))"

subsection \<open>Hard deletes\<close>

definition deleteTender :: "int \<Rightarrow> Database \<Rightarrow> bool \<times> Database" where
  "deleteTender id' db = (True, db\<lparr>tenders := delete_where (eq t_id id') (tenders db)\<rparr>)"

definition deleteEstimateItem :: "int \<Rightarrow> Database \<Rightarrow> bool \<times> Database" where
  "deleteEstimateItem id' db =
    (True, db\<lparr>estimateItems := delete_where (eq ei_id id') (estimateItems db)\<rparr>)"

definition deleteCrew :: "int \<Rightarrow> Database \<Rightarrow> bool \<times> Database" where
  "deleteCrew id' db = (True, db\<lparr>crews := delete_where (eq c_id id') (crews db)\<rparr>)"

subsection \<open>Lists with filters\<close>

text \<open>
  A criterion enters the list of conditions when its test holds: \<^verbatim>\<open>if (filters.x)\<close>
  is truthiness (a string that is not empty, a number that is not zero),
  \<^verbatim>\<open>filters.x !== undefined\<close> is presence, \<^verbatim>\<open>filters.xs?.length\<close> a list that is not
  empty.
\<close>

text \<open>\<^verbatim>\<open>eq(column, value)\<close> with a string: the value is a bound parameter.\<close>

definition eq_text :: "('r \<Rightarrow> jsstring) \<Rightarrow> jsstring \<Rightarrow> 'r cond" where
  "eq_text column v = eq column (bind_text v)"

definition if_truthy_string :: "jsstring option \<Rightarrow> (jsstring \<Rightarrow> 'r cond) \<Rightarrow> 'r cond list" where
  "if_truthy_string v c = (case v of None \<Rightarrow> [] | Some s \<Rightarrow> if s = [] then [] else [c s])"

definition if_truthy_number :: "int option \<Rightarrow> (int \<Rightarrow> 'r cond) \<Rightarrow> 'r cond list" where
  "if_truthy_number v c = (case v of None \<Rightarrow> [] | Some n \<Rightarrow> if n = 0 then [] else [c n])"

definition if_defined :: "'a option \<Rightarrow> ('a \<Rightarrow> 'r cond) \<Rightarrow> 'r cond list" where
  "if_defined v c = (case v of None \<Rightarrow> [] | Some x \<Rightarrow> [c x])"

definition if_length :: "'a list option \<Rightarrow> ('a list \<Rightarrow> 'r cond) \<Rightarrow> 'r cond list" where
  "if_length v c = (case v of None \<Rightarrow> [] | Some xs \<Rightarrow> if xs = [] then [] else [c xs])"

text \<open>
  \<^verbatim>\<open>if (conditions.length > 0) query = query.where(and(...conditions))\<close>, then the query
  runs.
\<close>

definition run_query :: "'r cond list \<Rightarrow> 'r list \<Rightarrow> 'r list" where
  "run_query conditions rows =
    (if length conditions > 0 then select_where (and_conditions conditions) rows else rows)"

record TenderFilters =
  tf_category :: "jsstring option"
  tf_location :: "jsstring option"
  tf_status :: "jsstring option"
  tf_userId :: "int option"
  tf_searchTerm :: "jsstring option"
  tf_personType :: "jsstring option"
  tf_requiredProfessions :: "jsstring list option"

definition tender_conditions :: "bool \<Rightarrow> TenderFilters \<Rightarrow> TenderRow cond list" where
  "tender_conditions cs filters =
    if_truthy_string (tf_category filters) (eq_text t_category)
    @ if_truthy_string (tf_location filters) (\<lambda>v. like cs t_location (contains_pattern v))
    @ if_truthy_string (tf_status filters) (eq_text t_status)
    @ if_truthy_number (tf_userId filters) (eq t_userId)
    @ if_truthy_string (tf_searchTerm filters)
        (\<lambda>v. or_conditions [like cs t_title (contains_pattern v),
                             like cs t_description (contains_pattern v)])
    @ if_truthy_string (tf_personType filters) (eq_text t_personType)
    @ if_length (tf_requiredProfessions filters)
        (\<lambda>ps. or_conditions
                 (map (\<lambda>profession. like_nullable cs t_requiredProfessions
                                       (contains_pattern profession)) ps))"

definition getTenders ::
  "TenderFilters option \<Rightarrow> Database \<Rightarrow> (json, jsstring option) Tender list" where
  "getTenders filters db =
    (let result = (case filters of
                     None \<Rightarrow> tenders db
                   | Some f \<Rightarrow> run_query (tender_conditions (case_sensitive_like db) f)
                                 (tenders db))
     in map (map_Tender parseArray (\<lambda>p. p)) result)"

text \<open>
  What the conditions of \<^verbatim>\<open>getTenders\<close> say of a row, criterion by criterion: a
  criterion that is absent or falsy says nothing; \<^verbatim>\<open>eq\<close> is equality with the value
  as the store receives it; \<^verbatim>\<open>like\<close> is the \<^verbatim>\<open>LIKE\<close> match of \<^verbatim>\<open>%value%\<close>; the
  required professions are matched against the stored JSON text, one \<^verbatim>\<open>LIKE\<close> per
  profession, any of them.
\<close>

definition tender_criteria :: "bool \<Rightarrow> TenderFilters \<Rightarrow> TenderRow \<Rightarrow> bool" where
  "tender_criteria cs f t =
    ((case tf_category f of None \<Rightarrow> True | Some c \<Rightarrow> c = [] \<or> t_category t = bind_text c)
     \<and> (case tf_location f of None \<Rightarrow> True
         | Some v \<Rightarrow> v = [] \<or> sqlite_like cs (contains_pattern v) (t_location t))
     \<and> (case tf_status f of None \<Rightarrow> True | Some s \<Rightarrow> s = [] \<or> t_status t = bind_text s)
     \<and> (case tf_userId f of None \<Rightarrow> True | Some u \<Rightarrow> u = 0 \<or> t_userId t = u)
     \<and> (case tf_searchTerm f of None \<Rightarrow> True
         | Some q \<Rightarrow> q = [] \<or> sqlite_like cs (contains_pattern q) (t_title t)
                    \<or> sqlite_like cs (contains_pattern q) (t_description t))
     \<and> (case tf_personType f of None \<Rightarrow> True | Some p \<Rightarrow> p = [] \<or> t_personType t = bind_text p)
     \<and> (case tf_requiredProfessions f of None \<Rightarrow> True
         | Some ps \<Rightarrow> ps = [] \<or>
             (\<exists>p\<in>set ps. case t_requiredProfessions t of
                              None \<Rightarrow> False
                            | Some text \<Rightarrow> sqlite_like cs (contains_pattern p) text)))"

record ListingFilters =
  lf_category :: "jsstring option"
  lf_subcategory :: "jsstring option"
  lf_listingType :: "jsstring option"
  lf_location :: "jsstring option"
  lf_userId :: "int option"
  lf_minPrice :: "int option"
  lf_maxPrice :: "int option"
  lf_searchTerm :: "jsstring option"

definition price_conditions :: "int option \<Rightarrow> int option \<Rightarrow> ListingRow cond list" where
  "price_conditions minPrice maxPrice =
    (case (minPrice, maxPrice) of
       (Some lo, Some hi) \<Rightarrow> [between l_price lo hi]
     | (Some lo, None) \<Rightarrow> [ge l_price lo]
     | (None, Some hi) \<Rightarrow> [le l_price hi]
     | (None, None) \<Rightarrow> [])"

definition listing_conditions :: "bool \<Rightarrow> ListingFilters \<Rightarrow> ListingRow cond list" where
  "listing_conditions cs filters =
    if_truthy_string (lf_category filters) (eq_text l_category)
    @ if_truthy_string (lf_subcategory filters) (eq_text l_subcategory)
    @ if_truthy_string (lf_listingType filters) (eq_text l_listingType)
    @ if_truthy_string (lf_location filters) (\<lambda>v. like cs l_location (contains_pattern v))
    @ if_truthy_number (lf_userId filters) (eq l_userId)
    @ price_conditions (lf_minPrice filters) (lf_maxPrice filters)
    @ if_truthy_string (lf_searchTerm filters)
        (\<lambda>v. or_conditions [like cs l_title (contains_pattern v),
                             like cs l_description (contains_pattern v)])"

definition getMarketplaceListings ::
  "ListingFilters option \<Rightarrow> Database \<Rightarrow> json MarketplaceListing list" where
  "getMarketplaceListings filters db =
    (let result = (case filters of
                     None \<Rightarrow> marketplaceListings db
                   | Some f \<Rightarrow> run_query (listing_conditions (case_sensitive_like db) f)
                                 (marketplaceListings db))
     in map (map_Listing parseArray) result)"

record CrewFilters =
  cf_location :: "jsstring option"
  cf_specialization :: "jsstring option"
  cf_experienceYears :: "int option"
  cf_isVerified :: "bool option"
  cf_isAvailable :: "bool option"
  cf_searchTerm :: "jsstring option"

definition crew_conditions :: "bool \<Rightarrow> CrewFilters \<Rightarrow> Crew cond list" where
  "crew_conditions cs filters =
    if_truthy_string (cf_location filters) (\<lambda>v. like cs c_location (contains_pattern v))
    @ if_truthy_string (cf_specialization filters)
        (\<lambda>v. like cs c_specialization (contains_pattern v))
    @ if_defined (cf_experienceYears filters) (ge c_experienceYears)
    @ if_defined (cf_isVerified filters) (eq c_isVerified)
    @ if_defined (cf_isAvailable filters) (eq c_isAvailable)
    @ if_truthy_string (cf_searchTerm filters)
        (\<lambda>v. or_conditions [like cs c_name (contains_pattern v),
                             like_nullable cs c_description (contains_pattern v),
                             like cs c_specialization (contains_pattern v)])"

definition getCrews :: "CrewFilters option \<Rightarrow> Database \<Rightarrow> Crew list" where
  "getCrews filters db =
    (case filters of
       None \<Rightarrow> crews db
     | Some f \<Rightarrow> run_query (crew_conditions (case_sensitive_like db) f) (crews db))"

subsection \<open>Tenders by required profession\<close>

text \<open>
  \<^verbatim>\<open>professions.includes(profession)\<close> on the decoded column: membership in an array,
  a substring test on a string, and a \<^verbatim>\<open>TypeError\<close> on null, a number, a boolean or an
  object, none of which has a callable \<^verbatim>\<open>includes\<close>. An error thrown by the callback
  of \<^verbatim>\<open>filter\<close> ends the call.
\<close>

definition json_includes :: "json \<Rightarrow> jsstring \<Rightarrow> js_error + bool" where
  "json_includes v x =
    (case v of
       JArr es \<Rightarrow> Inr (JStr x \<in> set es)
     | JStr s \<Rightarrow> Inr (str_includes s x)
     | _ \<Rightarrow> Inl TypeError)"

text \<open>The members of a decoded list; no members for a value that is not a list.\<close>

definition elements :: "json \<Rightarrow> json list" where
  "elements v = (case v of JArr es \<Rightarrow> es | _ \<Rightarrow> [])"

fun filter_rows :: "('a \<Rightarrow> js_error + bool) \<Rightarrow> 'a list \<Rightarrow> js_error + 'a list" where
  "filter_rows p [] = Inr []"
| "filter_rows p (x # xs) =
    (case p x of
       Inl e \<Rightarrow> Inl e
     | Inr b \<Rightarrow> (case filter_rows p xs of
                   Inl e \<Rightarrow> Inl e
                 | Inr ys \<Rightarrow> Inr (if b then x # ys else ys)))"

definition getTendersByRequiredProfession ::
  "jsstring \<Rightarrow> Database \<Rightarrow> js_error + (json, json) Tender list" where
  "getTendersByRequiredProfession profession db =
    (case filter_rows
            (\<lambda>tender. json_includes (parseArray (t_requiredProfessions tender)) profession)
            (tenders db) of
       Inl e \<Rightarrow> Inl e
     | Inr filteredTenders \<Rightarrow> Inr (map (map_Tender parseArray parseArray) filteredTenders))"

subsection \<open>The tokens of an encoded list\<close>

text \<open>The tokens between the brackets of \<^verbatim>\<open>JSON.stringify\<close>'s text of a list of strings.\<close>

fun string_tokens :: "jsstring list \<Rightarrow> token list" where
  "string_tokens [] = []"
| "string_tokens [x] = [TStr x]"
| "string_tokens (x # y # r) = TStr x # Comma # string_tokens (y # r)"

section \<open>Examples\<close>

text \<open>
  Concrete values for the instances below. \<open>bom_text\<close> is the JSON text \<^verbatim>\<open>["a"]\<close> behind
  a byte order mark (U+FEFF). \<open>demo_db\<close> is a small state of the store: a house-building
  tender of user 17 that asks for an electrician's helper, a second tender, a bid of user
  1 on the first tender, three reviews addressed to user 1, a listing, a delivery order,
  an estimate item and two crews. \<open>no_changes\<close>, \<open>no_filters\<close> and their like are the
  empty payload and the empty filter objects.
\<close>

definition bom_text :: jsstring where
  "bom_text = 0xFEFF # [0x5B, 0x22, 0x61, 0x22, 0x5D]"

definition demo_user :: User where
  "demo_user = \<lparr>u_id = 1, u_username = js ''specialist_builder'',
     u_email = js ''builder@example.com'', u_fullName = js ''Builder'',
     u_userType = js ''contractor'', u_rating = 0, u_completedProjects = 30,
     u_walletBalance = 0, u_createdAt = 1, u_updatedAt = 1\<rparr>"

definition demo_tender :: TenderRow where
  "demo_tender = \<lparr>t_id = 1, t_userId = 17, t_title = js ''House'',
     t_description = js ''Two floors, 200 m2'', t_category = js ''construction'',
     t_location = js ''Odintsovo'', t_budget = 8000000, t_deadline = 90,
     t_status = js ''open'', t_personType = js ''individual'', t_images = None,
     t_requiredProfessions = Some (stringify (Some [js ''electrician-helper''])),
     t_viewCount = 0, t_createdAt = 10, t_updatedAt = 10\<rparr>"

definition demo_tender2 :: TenderRow where
  "demo_tender2 = \<lparr>t_id = 2, t_userId = 18, t_title = js ''a'',
     t_description = js ''b'', t_category = js ''construction-tools'',
     t_location = js ''Moscow'', t_budget = 100, t_deadline = 30,
     t_status = js ''completed'', t_personType = js ''company'',
     t_images = Some (js ''https://example.com/a.png''),
     t_requiredProfessions = Some (stringify (Some [js ''electrician'', js ''mason''])),
     t_viewCount = 3, t_createdAt = 12, t_updatedAt = 12\<rparr>"

definition demo_bid :: TenderBid where
  "demo_bid = \<lparr>b_id = 5, b_tenderId = 1, b_userId = 1, b_amount = 7500000,
     b_description = js ''Ready to build'', b_isAccepted = False, b_createdAt = 11\<rparr>"

definition demo_bid2 :: TenderBid where
  "demo_bid2 = \<lparr>b_id = 6, b_tenderId = 2, b_userId = 1, b_amount = 90,
     b_description = js ''Done before'', b_isAccepted = True, b_createdAt = 13\<rparr>"

definition demo_review :: "int \<Rightarrow> int \<Rightarrow> Review" where
  "demo_review i rating = \<lparr>r_id = i, r_authorId = 17, r_recipientId = 1, r_rating = rating,
     r_comment = js ''ok'', r_createdAt = 20\<rparr>"

definition demo_listing :: ListingRow where
  "demo_listing = \<lparr>l_id = 1, l_userId = 17, l_title = js ''Bricks'',
     l_description = js ''Red bricks'', l_category = js ''materials'',
     l_subcategory = js ''bricks'', l_listingType = js ''sell'', l_price = 0,
     l_location = js ''Moscow'', l_images = Some (js ''[]''), l_viewCount = 0,
     l_createdAt = 30, l_updatedAt = 30\<rparr>"

definition demo_listing2 :: ListingRow where
  "demo_listing2 = \<lparr>l_id = 2, l_userId = 18, l_title = js ''Cement'',
     l_description = js ''Bags'', l_category = js ''materials'',
     l_subcategory = js ''cement'', l_listingType = js ''sell'', l_price = 400,
     l_location = js ''Moscow'', l_images = None, l_viewCount = 0,
     l_createdAt = 31, l_updatedAt = 31\<rparr>"

definition demo_order :: DeliveryOrder where
  "demo_order = \<lparr>o_id = 1, o_userId = 17, o_status = js ''pending'',
     o_trackingCode = None, o_createdAt = 40, o_updatedAt = 40\<rparr>"

definition demo_crew :: Crew where
  "demo_crew = \<lparr>c_id = 1, c_ownerId = 1, c_name = js ''Masons'', c_description = None,
     c_location = js ''Moscow'', c_specialization = js ''brickwork'',
     c_experienceYears = 8, c_isVerified = True, c_isAvailable = True,
     c_createdAt = 50, c_updatedAt = 50\<rparr>"

definition demo_crew2 :: Crew where
  "demo_crew2 = \<lparr>c_id = 2, c_ownerId = 17, c_name = js ''Roofers'',
     c_description = Some (js ''Roofs''), c_location = js ''Tula'',
     c_specialization = js ''roofing'', c_experienceYears = 0, c_isVerified = False,
     c_isAvailable = False, c_createdAt = 51, c_updatedAt = 51\<rparr>"



text \<open>
  A tender whose required professions are stored as the JSON text of one string,
  \<^verbatim>\<open>"electrician-helper"\<close>, and one where they are stored as the JSON text \<^verbatim>\<open>null\<close>.
\<close>

definition string_tender :: TenderRow where
  "string_tender =
     demo_tender\<lparr>t_requiredProfessions := Some (0x22 # js ''electrician-helper'' @ [0x22])\<rparr>"

definition null_tender :: TenderRow where
  "null_tender = demo_tender\<lparr>t_requiredProfessions := Some (js ''null'')\<rparr>"

definition no_changes :: TenderPatch where
  "no_changes = \<lparr>tp_id = None, tp_userId = None, tp_title = None, tp_description = None,
     tp_category = None, tp_location = None, tp_budget = None, tp_deadline = None,
     tp_status = None, tp_personType = None, tp_images = None,
     tp_requiredProfessions = None, tp_viewCount = None, tp_createdAt = None,
     tp_updatedAt = None\<rparr>"


definition no_filters :: TenderFilters where
  "no_filters = \<lparr>tf_category = None, tf_location = None, tf_status = None, tf_userId = None,
     tf_searchTerm = None, tf_personType = None, tf_requiredProfessions = None\<rparr>"

definition no_listing_filters :: ListingFilters where
  "no_listing_filters = \<lparr>lf_category = None, lf_subcategory = None, lf_listingType = None,
     lf_location = None, lf_userId = None, lf_minPrice = None, lf_maxPrice = None,
     lf_searchTerm = None\<rparr>"

definition no_crew_filters :: CrewFilters where
  "no_crew_filters = \<lparr>cf_location = None, cf_specialization = None,
     cf_experienceYears = None, cf_isVerified = None, cf_isAvailable = None,
     cf_searchTerm = None\<rparr>"

definition demo_db :: Database where
  "demo_db = \<lparr>case_sensitive_like = True, users = [demo_user],
     tenders = [demo_tender, demo_tender2], tenderBids = [demo_bid, demo_bid2],
     marketplaceListings = [demo_listing, demo_listing2],
     reviews = [demo_review 1 5, demo_review 2 4, demo_review 3 3],
     deliveryOrders = [demo_order],
     estimateItems = [\<lparr>ei_id = 1, ei_estimateId = 1\<rparr>],
     crews = [demo_crew, demo_crew2]\<rparr>"

section \<open>The codec: encoding and decoding\<close>

subsection \<open>The lexer reads back what quoting wrote\<close>

lemma hexval_hexdigit: "n < 16 \<Longrightarrow> hexval (hexdigit n) = Some n"
proof (cases "n < 10")
  case True
  then have u: "unat (of_nat (0x30 + n) :: codeunit) = 0x30 + n"
    by (subst unat_of_nat) simp
  show ?thesis using True u
    by (simp add: hexval_def hexdigit_def word_le_nat_alt)
next
  case False
  assume "n < 16"
  with False have u: "unat (of_nat (0x61 + (n - 10)) :: codeunit) = 0x61 + (n - 10)"
    by (subst unat_of_nat) simp
  show ?thesis using False \<open>n < 16\<close> u
    by (simp add: hexval_def hexdigit_def word_le_nat_alt)
qed

lemma hex_recompose:
  "((n div 4096 * 16 + n div 256 mod 16) * 16 + n div 16 mod 16) * 16 + n mod 16 = (n::nat)"
proof -
  have a: "n div 256 = n div 16 div 16" by (simp add: div_mult2_eq)
  have b: "n div 4096 = n div 16 div 16 div 16" by (simp add: div_mult2_eq)
  have "n div 16 div 16 div 16 * 16 + n div 16 div 16 mod 16 = n div 16 div 16"
    by (rule div_mult_mod_eq)
  moreover have "n div 16 div 16 * 16 + n div 16 mod 16 = n div 16"
    by (rule div_mult_mod_eq)
  moreover have "n div 16 * 16 + n mod 16 = n"
    by (rule div_mult_mod_eq)
  ultimately show ?thesis by (simp only: a b)
qed

lemma hex4_unicode_escape:
  "hex4 (hexdigit (unat c div 4096)) (hexdigit (unat c div 256 mod 16))
        (hexdigit (unat c div 16 mod 16)) (hexdigit (unat c mod 16)) = Some (c :: codeunit)"
proof -
  have lt: "unat c < 65536" using unsigned_less [of c] by simp
  then have d1: "unat c div 4096 < 16" by simp
  have d2: "unat c div 256 mod 16 < 16" "unat c div 16 mod 16 < 16" "unat c mod 16 < 16"
    by simp_all
  have "hex4 (hexdigit (unat c div 4096)) (hexdigit (unat c div 256 mod 16))
        (hexdigit (unat c div 16 mod 16)) (hexdigit (unat c mod 16))
      = Some (of_nat (((unat c div 4096 * 16 + unat c div 256 mod 16) * 16
                + unat c div 16 mod 16) * 16 + unat c mod 16))"
    unfolding hex4_def
    by (simp only: hexval_hexdigit [OF d1] hexval_hexdigit [OF d2(1)]
        hexval_hexdigit [OF d2(2)] hexval_hexdigit [OF d2(3)] prod.case option.case)
  also have "\<dots> = Some c"
    by (simp only: hex_recompose) simp
  finally show ?thesis .
qed

lemma lex_string_unicode_escape:
  "lex_string (unicode_escape c @ r) = map_option (apfst ((#) c)) (lex_string r)"
  by (simp add: unicode_escape_def hex4_unicode_escape)

lemma lex_string_quote_unit:
  "lex_string (quote_unit c @ r) = map_option (apfst ((#) c)) (lex_string r)"
  by (simp add: quote_unit_def lex_string_unicode_escape unescape_def)

lemma surrogate_plain:
  "is_high_surrogate c \<or> is_low_surrogate c \<Longrightarrow> c \<noteq> 0x22 \<and> c \<noteq> 0x5C \<and> \<not> c < 0x20"
  by (auto simp: is_high_surrogate_def is_low_surrogate_def word_le_nat_alt
      word_less_nat_alt)

lemma lex_string_quote_units:
  "lex_string (quote_units s @ 0x22 # rest) = Some (s, rest)"
proof (induction s rule: quote_units.induct)
  case 1
  show ?case by simp
next
  case (2 c cs)
  show ?case
  proof (cases "is_high_surrogate c")
    case True
    note hi = this
    show ?thesis
    proof (cases cs)
      case Nil
      with hi show ?thesis by (simp add: lex_string_unicode_escape)
    next
      case (Cons d ds)
      show ?thesis
      proof (cases "is_low_surrogate d")
        case True
        with hi Cons 2 surrogate_plain [of c] surrogate_plain [of d]
        show ?thesis by simp
      next
        case False
        with hi Cons 2 show ?thesis by (simp add: lex_string_unicode_escape)
      qed
    qed
  next
    case False
    with 2 show ?thesis
      by (simp add: lex_string_unicode_escape lex_string_quote_unit)
  qed
qed

subsection \<open>The tokens and the value of an encoded list\<close>

lemma tokenize_QuoteJSONString:
  "tokenize (QuoteJSONString s @ rest) = map_option ((#) (TStr s)) (tokenize rest)"
  by (simp add: QuoteJSONString_def is_json_ws_def lex_string_quote_units)

lemma tokenize_join_comma:
  "tokenize (join_comma (map QuoteJSONString xs) @ rest)
     = map_option ((@) (string_tokens xs)) (tokenize rest)"
proof (induction xs rule: string_tokens.induct)
  case 1
  show ?case by (simp add: option.map_ident)
next
  case (2 x)
  show ?case by (simp add: tokenize_QuoteJSONString)
next
  case (3 x y r)
  have "tokenize (join_comma (map QuoteJSONString (x # y # r)) @ rest)
      = tokenize (QuoteJSONString x @ (0x2C # join_comma (map QuoteJSONString (y # r)) @ rest))"
    by simp
  also have "\<dots> = map_option ((#) (TStr x))
      (tokenize (0x2C # join_comma (map QuoteJSONString (y # r)) @ rest))"
    by (rule tokenize_QuoteJSONString)
  also have "\<dots> = map_option ((#) (TStr x))
      (map_option ((#) Comma) (tokenize (join_comma (map QuoteJSONString (y # r)) @ rest)))"
    by (simp add: is_json_ws_def)
  also have "\<dots> = map_option ((@) (string_tokens (x # y # r))) (tokenize rest)"
    unfolding 3 by (cases "tokenize rest") simp_all
  finally show ?case .
qed

lemma tokenize_JSON_stringify:
  "tokenize (JSON_stringify xs) = Some (LBrack # string_tokens xs @ [RBrack])"
proof -
  have "tokenize (join_comma (map QuoteJSONString xs) @ [0x5D])
      = map_option ((@) (string_tokens xs)) (tokenize [0x5D])"
    by (rule tokenize_join_comma)
  then show ?thesis
    by (simp add: JSON_stringify_def is_json_ws_def)
qed

lemma pda_run_elements:
  "E = EValue \<or> E = EValueOrClose \<Longrightarrow>
   pda_run (E, [FArr es]) (string_tokens (x # xs) @ [RBrack])
     = Some (JArr (rev es @ map JStr (x # xs)))"
proof (induction xs arbitrary: x es E)
  case Nil
  then show ?case by auto
next
  case (Cons y ys)
  have step: "pda_run (E, [FArr es]) (string_tokens (x # y # ys) @ [RBrack])
      = pda_run (EValue, [FArr (JStr x # es)]) (string_tokens (y # ys) @ [RBrack])"
    using Cons.prems by auto
  show ?case
    unfolding step by (simp add: Cons.IH [of EValue])
qed

lemma pda_run_string_array:
  "pda_run (EValue, []) (LBrack # string_tokens xs @ [RBrack]) = Some (JArr (map JStr xs))"
proof (cases xs)
  case Nil
  then show ?thesis by simp
next
  case (Cons x r)
  have "pda_run (EValueOrClose, [FArr []]) (string_tokens (x # r) @ [RBrack])
      = Some (JArr (rev [] @ map JStr (x # r)))"
    by (rule pda_run_elements) simp
  then show ?thesis unfolding Cons by simp
qed

lemma JSON_parse_stringify: "JSON_parse (JSON_stringify xs) = Some (JArr (map JStr xs))"
  by (simp only: JSON_parse_def tokenize_JSON_stringify option.case pda_run_string_array)

lemma trim_bracketed:
  "\<not> is_js_whitespace a \<Longrightarrow> \<not> is_js_whitespace b \<Longrightarrow> trim (a # xs @ [b]) = a # xs @ [b]"
  by (simp add: trim_def)

lemma trim_JSON_stringify: "trim (JSON_stringify xs) = JSON_stringify xs"
  unfolding JSON_stringify_def
  by (rule trim_bracketed) (simp_all add: is_js_whitespace_def)

lemma parseArray_JSON_stringify:
  "parseArray (Some (JSON_stringify xs)) = JArr (map JStr xs)"
proof -
  have ne: "JSON_stringify xs \<noteq> []" by (simp add: JSON_stringify_def)
  have sw: "startsWith (JSON_stringify xs) 0x5B"
    by (simp add: JSON_stringify_def startsWith_def)
  show ?thesis
    by (simp add: parseArray_def parseArray_try_def ne sw trim_JSON_stringify
        JSON_parse_stringify)
qed

text \<open>
  C4. Decoding the encoding of a list of strings returns the list: for every list \<open>L\<close>,
  the empty one too, \<^verbatim>\<open>JsonUtils.parseArray(JsonUtils.stringify(L))\<close> is the array of
  the strings of \<open>L\<close> in their order. An absent value is written as the empty list.
\<close>

theorem codec_roundtrip:
  "parseArray (Some (stringify (Some L))) = JArr (map JStr L)
   \<and> parseArray (Some (stringify None)) = JArr []"
  using parseArray_JSON_stringify [of L] parseArray_JSON_stringify [of "[]"]
  by (simp add: stringify_def)

theorem codec_roundtrip_witness:
  "parseArray (Some (stringify (Some [js ''a.png'', [0x22, 0x5C, 0x0A, 0xD800], []])))
     = JArr [JStr (js ''a.png''), JStr [0x22, 0x5C, 0x0A, 0xD800], JStr []]
   \<and> parseArray (Some (stringify (Some []))) = JArr []"
  using codec_roundtrip [of "[js ''a.png'', [0x22, 0x5C, 0x0A, 0xD800], []]"]
    codec_roundtrip [of "[]"]
  by simp

subsection \<open>Values that are not JSON\<close>

lemma str_includes_sublist: "str_includes s n \<longleftrightarrow> sublist n s"
  by (induction s) (auto simp: sublist_Cons_right)

lemma sublist_trim: "sublist (trim s) s"
proof -
  have "suffix (dropWhile is_js_whitespace (rev (dropWhile is_js_whitespace s)))
          (rev (dropWhile is_js_whitespace s))"
    by (rule suffix_dropWhile)
  then have "prefix (trim s) (dropWhile is_js_whitespace s)"
    by (simp add: trim_def suffix_to_prefix)
  moreover have "suffix (dropWhile is_js_whitespace s) s"
    by (rule suffix_dropWhile)
  ultimately show ?thesis
    by (meson prefix_imp_sublist suffix_imp_sublist sublist_order.order_trans)
qed

lemma isUrl_trim: "isUrl (trim s) \<Longrightarrow> isUrl s"
  unfolding isUrl_def str_includes_sublist
  using sublist_trim [of s] by (meson sublist_order.order_trans)

text \<open>
  C5, as stated, fails: a text that \<^verbatim>\<open>JSON.parse\<close> rejects and that has neither
  \<^verbatim>\<open>http\<close> nor \<^verbatim>\<open>www\<close> can decode to a list that is not empty. \<^verbatim>\<open>parseArray\<close> parses
  the trimmed text, and \<^verbatim>\<open>trim\<close> removes more than JSON's white space: a byte order
  mark in front of \<^verbatim>\<open>["a"]\<close> makes the text invalid JSON, and \<^verbatim>\<open>parseArray\<close> returns
  \<^verbatim>\<open>["a"]\<close>.
\<close>

theorem parseArray_invalid_json_counterexample:
  "JSON_parse bom_text = None \<and> \<not> isUrl bom_text
   \<and> parseArray (Some bom_text) = JArr [JStr (js ''a'')]
   \<and> parseArray (Some bom_text) \<noteq> JArr []"
  by code_simp

text \<open>
  C5, amended. For every stored text whose trimmed form is not valid JSON and that
  contains neither \<^verbatim>\<open>http\<close> nor \<^verbatim>\<open>www\<close>, \<^verbatim>\<open>parseArray\<close> returns the empty list. The
  failure of \<^verbatim>\<open>JSON.parse\<close> is caught inside \<^verbatim>\<open>parseArray\<close>: its result is a value for
  every input.
\<close>

theorem parseArray_malformed:
  "JSON_parse (trim s) = None \<Longrightarrow> \<not> isUrl s \<Longrightarrow> parseArray (Some s) = JArr []"
proof -
  assume np: "JSON_parse (trim s) = None" and nu: "\<not> isUrl s"
  from nu have "\<not> isUrl (trim s)" using isUrl_trim [of s] by blast
  with np nu show ?thesis
    by (simp add: parseArray_def parseArray_try_def Let_def)
qed

theorem parseArray_malformed_witness:
  "JSON_parse (trim (js ''not json'')) = None \<and> \<not> isUrl (js ''not json'')
   \<and> parseArray (Some (js ''not json'')) = JArr []"
proof -
  have a: "JSON_parse (trim (js ''not json'')) = None" by code_simp
  have b: "\<not> isUrl (js ''not json'')" by code_simp
  from a b parseArray_malformed [OF a b] show ?thesis by simp
qed

section \<open>Facts about the statements\<close>

lemma select_where_eq: "select_where (eq column v) rows = filter (\<lambda>r. column r = v) rows"
  by (simp add: select_where_def eq_def)

lemma update_where_eq:
  "update_where (eq column v) f rows = map (\<lambda>r. if column r = v then f r else r) rows"
  by (simp add: update_where_def eq_def)

lemma returning_eq: "returning (eq column v) f rows = map f (filter (\<lambda>r. column r = v) rows)"
  by (simp add: returning_def select_where_eq)

lemma delete_where_eq: "delete_where (eq column v) rows = filter (\<lambda>r. column r \<noteq> v) rows"
  by (simp add: delete_where_def eq_def)

lemma first_filter: "first (filter P xs) = find P xs"
  by (induction xs) (simp_all add: first_def)

lemma first_map: "first (map f xs) = map_option f (first xs)"
  by (cases xs) (simp_all add: first_def)

lemma map_unchanged: "(\<And>x. x \<in> set xs \<Longrightarrow> f x = x) \<Longrightarrow> map f xs = xs"
  by (induction xs) simp_all


section \<open>Accepting a bid\<close>

lemma find_update:
  "find (\<lambda>b. k b = v) xs = Some x \<Longrightarrow> (\<And>y. k (g y) = k y) \<Longrightarrow>
   find (\<lambda>b. k b = v) (map (\<lambda>b. if k b = v then g b else b) xs) = Some (g x)"
  by (induction xs) (auto split: if_splits)

lemma acceptTenderBid_found:
  assumes "find (\<lambda>b. b_id b = bidId) (tenderBids db) = Some bid"
  shows "acceptTenderBid bidId db =
          (Some (bid\<lparr>b_isAccepted := True\<rparr>),
           db\<lparr>tenders := map (\<lambda>t. if t_id t = b_tenderId bid
                                   then t\<lparr>t_status := js ''in_progress''\<rparr> else t) (tenders db),
              tenderBids := map (\<lambda>b. if b_id b = bidId then b\<lparr>b_isAccepted := True\<rparr> else b)
                              (tenderBids db)\<rparr>)"
proof -
  from assms have "first (filter (\<lambda>b. b_id b = bidId) (tenderBids db)) = Some bid"
    by (simp add: first_filter)
  then show ?thesis
    by (simp add: acceptTenderBid_def select_where_eq update_where_eq returning_eq
        first_map Let_def)
qed

lemma acceptTenderBid_again:
  assumes "find (\<lambda>b. b_id b = bidId) (tenderBids db) = Some bid"
  shows "acceptTenderBid bidId (snd (acceptTenderBid bidId db)) = acceptTenderBid bidId db"
proof -
  let ?F = "\<lambda>t. if t_id t = b_tenderId bid then t\<lparr>t_status := js ''in_progress''\<rparr> else t"
  let ?G = "\<lambda>b. if b_id b = bidId then b\<lparr>b_isAccepted := True\<rparr> else b"
  let ?db2 = "db\<lparr>tenders := map ?F (tenders db), tenderBids := map ?G (tenderBids db)\<rparr>"
  have one: "acceptTenderBid bidId db = (Some (bid\<lparr>b_isAccepted := True\<rparr>), ?db2)"
    by (rule acceptTenderBid_found [OF assms])
  have "find (\<lambda>b. b_id b = bidId) (map ?G (tenderBids db)) = Some (bid\<lparr>b_isAccepted := True\<rparr>)"
    by (rule find_update [OF assms]) simp
  then have f2: "find (\<lambda>b. b_id b = bidId) (tenderBids ?db2) = Some (bid\<lparr>b_isAccepted := True\<rparr>)"
    by simp
  have FF: "map ?F (map ?F xs) = map ?F xs" for xs by (induction xs) auto
  have GG: "map ?G (map ?G xs) = map ?G xs" for xs by (induction xs) auto
  have "acceptTenderBid bidId ?db2 = (Some (bid\<lparr>b_isAccepted := True\<rparr>), ?db2)"
    unfolding acceptTenderBid_found [OF f2] by (simp add: FF GG)
  with one show ?thesis by simp
qed

text \<open>
  C1. When a bid with the given id exists, \<^verbatim>\<open>acceptTenderBid\<close> returns that bid with its
  flag set, sets the flag of the bid in the table and sets the status of the tender the
  bid belongs to to \<^verbatim>\<open>in_progress\<close>; nothing else changes. When no bid has the id it
  returns \<^verbatim>\<open>undefined\<close> and the state is the one before. A second call returns the same
  bid and leaves the same state; on a bid that is accepted already the returned bid is
  the bid as it was, and the status of its tender is written again, whatever it was.
\<close>

theorem acceptTenderBid_spec:
  "(find (\<lambda>b. b_id b = bidId) (tenderBids db) = None \<longrightarrow>
      acceptTenderBid bidId db = (None, db))
   \<and> (\<forall>bid. find (\<lambda>b. b_id b = bidId) (tenderBids db) = Some bid \<longrightarrow>
        acceptTenderBid bidId db =
          (Some (bid\<lparr>b_isAccepted := True\<rparr>),
           db\<lparr>tenders := map (\<lambda>t. if t_id t = b_tenderId bid
                                   then t\<lparr>t_status := js ''in_progress''\<rparr> else t) (tenders db),
              tenderBids := map (\<lambda>b. if b_id b = bidId then b\<lparr>b_isAccepted := True\<rparr> else b)
                              (tenderBids db)\<rparr>)
        \<and> acceptTenderBid bidId (snd (acceptTenderBid bidId db)) = acceptTenderBid bidId db
        \<and> (b_isAccepted bid \<longrightarrow>
             fst (acceptTenderBid bidId db) = Some bid
             \<and> tenders (snd (acceptTenderBid bidId db)) =
                 map (\<lambda>t. if t_id t = b_tenderId bid
                          then t\<lparr>t_status := js ''in_progress''\<rparr> else t) (tenders db)))"
proof (intro conjI allI impI)
  assume "find (\<lambda>b. b_id b = bidId) (tenderBids db) = None"
  then show "acceptTenderBid bidId db = (None, db)"
    by (simp add: acceptTenderBid_def select_where_eq first_filter)
next
  fix bid
  assume f: "find (\<lambda>b. b_id b = bidId) (tenderBids db) = Some bid"
  show "acceptTenderBid bidId db =
          (Some (bid\<lparr>b_isAccepted := True\<rparr>),
           db\<lparr>tenders := map (\<lambda>t. if t_id t = b_tenderId bid
                                   then t\<lparr>t_status := js ''in_progress''\<rparr> else t) (tenders db),
              tenderBids := map (\<lambda>b. if b_id b = bidId then b\<lparr>b_isAccepted := True\<rparr> else b)
                              (tenderBids db)\<rparr>)"
    by (rule acceptTenderBid_found [OF f])
  show "acceptTenderBid bidId (snd (acceptTenderBid bidId db)) = acceptTenderBid bidId db"
    by (rule acceptTenderBid_again [OF f])
  assume acc: "b_isAccepted bid"
  then show "fst (acceptTenderBid bidId db) = Some bid"
    by (simp add: acceptTenderBid_found [OF f])
  show "tenders (snd (acceptTenderBid bidId db)) =
          map (\<lambda>t. if t_id t = b_tenderId bid
                   then t\<lparr>t_status := js ''in_progress''\<rparr> else t) (tenders db)"
    by (simp add: acceptTenderBid_found [OF f])
qed


theorem acceptTenderBid_spec_witness:
  "acceptTenderBid 5 demo_db =
     (Some (demo_bid\<lparr>b_isAccepted := True\<rparr>),
      demo_db\<lparr>tenders := [demo_tender\<lparr>t_status := js ''in_progress''\<rparr>, demo_tender2],
              tenderBids := [demo_bid\<lparr>b_isAccepted := True\<rparr>, demo_bid2]\<rparr>)
   \<and> acceptTenderBid 6 demo_db =
     (Some demo_bid2,
      demo_db\<lparr>tenders := [demo_tender, demo_tender2\<lparr>t_status := js ''in_progress''\<rparr>]\<rparr>)
   \<and> acceptTenderBid 7 demo_db = (None, demo_db)"
proof -
  have f5: "find (\<lambda>b. b_id b = 5) (tenderBids demo_db) = Some demo_bid"
    by (simp add: demo_db_def demo_bid_def)
  have f6: "find (\<lambda>b. b_id b = 6) (tenderBids demo_db) = Some demo_bid2"
    by (simp add: demo_db_def demo_bid_def demo_bid2_def)
  have f7: "find (\<lambda>b. b_id b = 7) (tenderBids demo_db) = None"
    by (simp add: demo_db_def demo_bid_def demo_bid2_def)
  show ?thesis
    using acceptTenderBid_spec [of 5 demo_db] acceptTenderBid_spec [of 6 demo_db]
      acceptTenderBid_spec [of 7 demo_db] f5 f6 f7
    by (simp add: demo_db_def demo_bid_def demo_bid2_def demo_tender_def demo_tender2_def)
qed

section \<open>Partial updates: what changes and what does not\<close>

lemma update_absent:
  "find (\<lambda>r. k r = v) xs = None \<Longrightarrow> map (\<lambda>r. if k r = v then f r else r) xs = xs"
  by (induction xs) (auto split: if_splits)

lemma first_returning:
  "first (returning (eq k v) f rows) = map_option f (find (\<lambda>r. k r = v) rows)"
  by (simp add: returning_eq first_map first_filter)


lemma update_by_id_in_place:
  assumes keeps: "\<And>r. k r = i \<Longrightarrow> k (f r) = i"
  shows "update_by_id k i f rows =
    Inr (map f (filter (\<lambda>r. k r = i) rows), map (\<lambda>r. if k r = i then f r else r) rows)"
proof -
  have keys: "map k (map (\<lambda>r. if k r = i then f r else r) rows) = map k rows"
    by (induction rows) (simp_all add: keeps)
  have apart: "\<not> (\<exists>u\<in>set (map f (filter (\<lambda>r. k r = i) rows)).
      k u \<in> set (map k (filter (\<lambda>r. k r \<noteq> i) rows)))"
    by (auto simp: keeps)
  show ?thesis
    unfolding update_by_id_def Let_def returning_eq update_where_eq delete_where_eq
    using keys apart by simp
qed

lemma update_by_id_done:
  assumes "update_by_id k i f rows = Inr (updated, table)"
  shows "updated = map f (filter (\<lambda>r. k r = i) rows)
    \<and> mset table = mset (map (\<lambda>r. if k r = i then f r else r) rows)"
  using assms
  by (auto simp: update_by_id_def Let_def returning_eq update_where_eq delete_where_eq
      split: if_splits)





lemma updateTender_in_place:
  assumes "\<not> names_no_column p" and "tp_id p = None"
  shows "updateTender i p db =
    (Inr (map_option (\<lambda>t. map_Tender parseArray (\<lambda>p. p) (set_tender p t))
            (find (\<lambda>t. t_id t = i) (tenders db))),
     db\<lparr>tenders := map (\<lambda>t. if t_id t = i then set_tender p t else t) (tenders db)\<rparr>)"
proof -
  have keeps: "\<And>t. t_id t = i \<Longrightarrow> t_id (set_tender p t) = i"
    using assms(2) by (simp add: set_tender_def patched_def)
  have "first (map (set_tender p) (filter (\<lambda>t. t_id t = i) (tenders db)))
      = map_option (set_tender p) (find (\<lambda>t. t_id t = i) (tenders db))"
    by (simp add: first_map first_filter)
  then show ?thesis
    using assms(1)
    by (cases "find (\<lambda>t. t_id t = i) (tenders db)")
       (simp_all add: updateTender_def update_by_id_in_place [where f = "set_tender p" and k = t_id and i = i, OF keeps])
qed







lemma updateCrew_done:
  assumes "fst (updateCrew now i q db) = Inr r"
  shows "r = map_option (set_crew (q\<lparr>cp_updatedAt := Some now\<rparr>))
               (find (\<lambda>c. c_id c = i) (crews db))
    \<and> mset (crews (snd (updateCrew now i q db)))
        = mset (map (\<lambda>c. if c_id c = i then set_crew (q\<lparr>cp_updatedAt := Some now\<rparr>) c else c)
                 (crews db))
    \<and> (snd (updateCrew now i q db))\<lparr>crews := crews db\<rparr> = db"
proof -
  let ?f = "set_crew (q\<lparr>cp_updatedAt := Some now\<rparr>)"
  from assms obtain updated table where
    u: "update_by_id c_id i ?f (crews db) = Inr (updated, table)"
    by (auto simp: updateCrew_def Let_def split: sum.splits prod.splits)
  from update_by_id_done [OF u] have
    upd: "updated = map ?f (filter (\<lambda>c. c_id c = i) (crews db))"
    and tab: "mset table = mset (map (\<lambda>c. if c_id c = i then ?f c else c) (crews db))"
    by simp_all
  have fu: "first updated = map_option ?f (find (\<lambda>c. c_id c = i) (crews db))"
    by (simp add: upd first_map first_filter)
  show ?thesis
    using assms tab by (auto simp: updateCrew_def Let_def u fu)
qed




text \<open>
  On the example store: a title with a surrogate that has no partner is stored, and
  returned, with U+FFFD in its place; an update that moves tender 1 to the identifier 5
  puts it behind tender 2; an update that would give it the identifier of tender 2 is
  refused.
\<close>

lemma updateTender_stored_text:
  "fst (updateTender 1 (no_changes\<lparr>tp_title := Some [0x61, 0xD800]\<rparr>) demo_db)
     = Inr (Some (map_Tender parseArray (\<lambda>p. p) (demo_tender\<lparr>t_title := [0x61, 0xFFFD]\<rparr>)))"
proof -
  have named: "\<not> names_no_column (no_changes\<lparr>tp_title := Some [0x61, 0xD800]\<rparr>)"
    "tp_id (no_changes\<lparr>tp_title := Some [0x61, 0xD800]\<rparr>) = None"
    by (simp_all add: names_no_column_def no_changes_def)
  show ?thesis
    unfolding updateTender_in_place [OF named]
    by (simp add: demo_db_def demo_tender_def set_tender_def patched_def patched_text_def
        patched_nullable_def encode_images_def no_changes_def is_high_surrogate_def is_low_surrogate_def)
qed

lemma updateTender_identifier:
  "updateTender 1 (no_changes\<lparr>tp_id := Some 5\<rparr>) demo_db
     = (Inr (Some (map_Tender parseArray (\<lambda>p. p) (demo_tender\<lparr>t_id := 5\<rparr>))),
        demo_db\<lparr>tenders := [demo_tender2, demo_tender\<lparr>t_id := 5\<rparr>]\<rparr>)"
  "updateTender 1 (no_changes\<lparr>tp_id := Some 2\<rparr>) demo_db
     = (Inl (SqliteError (js ''SQLITE_CONSTRAINT_PRIMARYKEY'')), demo_db)"
proof -
  have moved: "set_tender (no_changes\<lparr>tp_id := Some 5\<rparr>) demo_tender = demo_tender\<lparr>t_id := 5\<rparr>"
    by (simp add: set_tender_def no_changes_def patched_def patched_text_def
        patched_nullable_def encode_images_def demo_tender_def)
  have ids: "t_id demo_tender = 1" "t_id demo_tender2 = 2"
    by (simp_all add: demo_tender_def demo_tender2_def)
  have named: "\<not> names_no_column (no_changes\<lparr>tp_id := Some 5\<rparr>)"
    "\<not> names_no_column (no_changes\<lparr>tp_id := Some 2\<rparr>)"
    by (simp_all add: names_no_column_def no_changes_def)
  have by_id: "update_by_id t_id 1 (set_tender (no_changes\<lparr>tp_id := Some 5\<rparr>)) (tenders demo_db)
      = Inr ([demo_tender\<lparr>t_id := 5\<rparr>], [demo_tender2, demo_tender\<lparr>t_id := 5\<rparr>])"
    by (simp add: update_by_id_def Let_def returning_eq update_where_eq delete_where_eq
        demo_db_def ids moved)
  show "updateTender 1 (no_changes\<lparr>tp_id := Some 5\<rparr>) demo_db
     = (Inr (Some (map_Tender parseArray (\<lambda>p. p) (demo_tender\<lparr>t_id := 5\<rparr>))),
        demo_db\<lparr>tenders := [demo_tender2, demo_tender\<lparr>t_id := 5\<rparr>]\<rparr>)"
    by (simp add: updateTender_def by_id first_def named)
  have taken: "set_tender (no_changes\<lparr>tp_id := Some 2\<rparr>) demo_tender = demo_tender\<lparr>t_id := 2\<rparr>"
    by (simp add: set_tender_def no_changes_def patched_def patched_text_def
        patched_nullable_def encode_images_def demo_tender_def)
  have refused: "update_by_id t_id 1 (set_tender (no_changes\<lparr>tp_id := Some 2\<rparr>)) (tenders demo_db)
      = Inl (SqliteError (js ''SQLITE_CONSTRAINT_PRIMARYKEY''))"
    by (simp add: update_by_id_def Let_def returning_eq update_where_eq delete_where_eq
        demo_db_def ids taken)
  show "updateTender 1 (no_changes\<lparr>tp_id := Some 2\<rparr>) demo_db
     = (Inl (SqliteError (js ''SQLITE_CONSTRAINT_PRIMARYKEY'')), demo_db)"
    by (simp add: updateTender_def refused named)
qed

subsection \<open>The time stamp of an update\<close>

text \<open>
  \<^verbatim>\<open>updateCrew\<close> (like \<^verbatim>\<open>updateUser\<close>, \<^verbatim>\<open>updateEstimate\<close> and \<^verbatim>\<open>updateDesignProject\<close>)
  overwrites \<^verbatim>\<open>updatedAt\<close> with the current instant, whatever the payload carries.
\<close>

lemma updateCrew_stamps:
  assumes "fst (updateCrew now i p db) = Inr (Some c)"
  shows "c_updatedAt c = now"
proof -
  from updateCrew_done [OF assms] obtain c0 where
    "c = set_crew (p\<lparr>cp_updatedAt := Some now\<rparr>) c0"
    by (cases "find (\<lambda>c. c_id c = i) (crews db)") auto
  then show ?thesis
    by (simp add: set_crew_def patched_def)
qed

text \<open>
  C2 does not hold for \<^verbatim>\<open>updateTender\<close>: it passes the payload to \<^verbatim>\<open>set\<close> as it is.
  On the example store, where the tenders carry the stamps 10 and 12, an update of
  tender 1 with \<^verbatim>\<open>{status: "closed", updatedAt: 5}\<close> stores the caller's 5, and an update
  with \<^verbatim>\<open>{status: "closed"}\<close> leaves the stamp at 10: the current instant is not read.
\<close>

theorem updateTender_does_not_stamp:
  "map t_updatedAt (tenders demo_db) = [10, 12]
   \<and> map t_updatedAt (tenders (snd (updateTender 1
         (no_changes\<lparr>tp_status := Some (js ''closed''), tp_updatedAt := Some 5\<rparr>) demo_db)))
       = [5, 12]
   \<and> map t_updatedAt (tenders (snd (updateTender 1
         (no_changes\<lparr>tp_status := Some (js ''closed'')\<rparr>) demo_db)))
       = [10, 12]"
proof -
  have named: "\<not> names_no_column (no_changes\<lparr>tp_status := Some (js ''closed''),
        tp_updatedAt := Some 5\<rparr>)"
      "tp_id (no_changes\<lparr>tp_status := Some (js ''closed''), tp_updatedAt := Some 5\<rparr>) = None"
      "\<not> names_no_column (no_changes\<lparr>tp_status := Some (js ''closed'')\<rparr>)"
      "tp_id (no_changes\<lparr>tp_status := Some (js ''closed'')\<rparr>) = None"
    by (simp_all add: names_no_column_def no_changes_def)
  show ?thesis
    unfolding updateTender_in_place [OF named(1) named(2)]
      updateTender_in_place [OF named(3) named(4)]
    by (simp add: demo_db_def demo_tender_def demo_tender2_def set_tender_def patched_def
        no_changes_def)
qed
section \<open>The rating of a user\<close>

lemma foldl_rating:
  "foldl (\<lambda>sum review. sum + r_rating review) a rs = a + sum_list (map r_rating rs)"
  by (induction rs arbitrary: a) simp_all

text \<open>
  Rounding a quotient of integers to the nearest integer, a half up, in integer
  arithmetic, and as the integer within a half of the quotient.
\<close>

lemma Math_round_quotient:
  assumes "0 < n"
  shows "Math_round (of_int t / of_int n) = (2 * t + n) div (2 * n)"
proof -
  from assms have "(of_int t :: rat) / of_int n + 1 / 2 = of_int (2 * t + n) / of_int (2 * n)"
    by (simp add: field_simps)
  then show ?thesis
    by (simp only: Math_round_def floor_divide_of_int_eq)
qed

lemma Math_round_nearest:
  "of_int (Math_round x) - 1 / 2 \<le> x \<and> x < of_int (Math_round x) + 1 / 2"
proof -
  have "of_int \<lfloor>x + 1 / 2\<rfloor> \<le> x + 1 / 2" and "x + 1 / 2 < of_int \<lfloor>x + 1 / 2\<rfloor> + 1"
    by linarith+
  then show ?thesis
    unfolding Math_round_def by linarith
qed

lemma updateUserRating_none:
  "filter (\<lambda>r. r_recipientId r = uid) (reviews db) = [] \<Longrightarrow>
   updateUserRating uid db = (Inr 0, db)"
  by (simp add: updateUserRating_def select_where_eq)

lemma updateUserRating_some:
  assumes "filter (\<lambda>r. r_recipientId r = uid) (reviews db) = rs" and "rs \<noteq> []"
    and "find (\<lambda>u. u_id u = uid) (users db) = Some u"
  shows "updateUserRating uid db =
     (Inr (Math_round (of_int (sum_list (map r_rating rs)) / of_int (int (length rs)))),
      db\<lparr>users := map (\<lambda>u. if u_id u = uid
                then u\<lparr>u_rating := Math_round (of_int (sum_list (map r_rating rs))
                                                  / of_int (int (length rs)))\<rparr>
                else u) (users db)\<rparr>)"
  using assms
  by (simp add: updateUserRating_def select_where_eq Let_def foldl_rating first_returning
      update_where_eq)

lemma updateUserRating_no_user:
  assumes "filter (\<lambda>r. r_recipientId r = uid) (reviews db) \<noteq> []"
    and "find (\<lambda>u. u_id u = uid) (users db) = None"
  shows "updateUserRating uid db = (Inl TypeError, db)"
  using assms
  by (simp add: updateUserRating_def select_where_eq Let_def first_returning update_where_eq
      update_absent)

text \<open>
  C6 as the spec states it fails when the user has reviews and no row: on the example
  store without its users, the reviews addressed to user 1 have the ratings 5, 4, 3, and
  \<^verbatim>\<open>updateUserRating(1)\<close> neither returns 4 nor stores it. The update returns no row and
  reading the rating of \<^verbatim>\<open>undefined\<close> raises a \<^verbatim>\<open>TypeError\<close>.
\<close>

theorem updateUserRating_no_user_counterexample:
  "map r_rating (filter (\<lambda>r. r_recipientId r = 1) (reviews (demo_db\<lparr>users := []\<rparr>)))
     = [5, 4, 3]
   \<and> updateUserRating 1 (demo_db\<lparr>users := []\<rparr>) = (Inl TypeError, demo_db\<lparr>users := []\<rparr>)
   \<and> fst (updateUserRating 1 (demo_db\<lparr>users := []\<rparr>)) \<noteq> Inr 4"
proof -
  have r: "map r_rating (filter (\<lambda>r. r_recipientId r = 1) (reviews (demo_db\<lparr>users := []\<rparr>)))
     = [5, 4, 3]"
    by (simp add: demo_db_def demo_review_def)
  then have ne: "filter (\<lambda>r. r_recipientId r = 1) (reviews (demo_db\<lparr>users := []\<rparr>)) \<noteq> []"
    by auto
  have "find (\<lambda>u. u_id u = 1) (users (demo_db\<lparr>users := []\<rparr>)) = None"
    by simp
  from updateUserRating_no_user [OF ne this] r show ?thesis
    by simp
qed

text \<open>
  C6, when the row of the user exists. With no review addressed to the user,
  \<^verbatim>\<open>updateUserRating\<close> returns 0 and the store is unchanged. With reviews whose
  ratings add up exactly in doubles (\<open>exact_ratings\<close>) and the user's row present,
  it returns the mean of the ratings of all reviews addressed to the user, rounded to
  the nearest integer and a half up, and stores it as the rating of that user, changing
  nothing else: the result is \<open>(2 * total + n) div (2 * n)\<close> for \<open>n\<close> ratings that add
  up to \<open>total\<close>, and it lies within a half of the mean. For the ratings 5, 4, 3 that is
  4.
\<close>

theorem updateUserRating_spec:
  "(filter (\<lambda>r. r_recipientId r = uid) (reviews db) = [] \<longrightarrow>
      updateUserRating uid db = (Inr 0, db))
   \<and> (\<forall>u. filter (\<lambda>r. r_recipientId r = uid) (reviews db) \<noteq> []
           \<and> exact_ratings (filter (\<lambda>r. r_recipientId r = uid) (reviews db))
           \<and> find (\<lambda>u. u_id u = uid) (users db) = Some u \<longrightarrow>
         updateUserRating uid db =
           (Inr ((2 * sum_list (map r_rating (filter (\<lambda>r. r_recipientId r = uid) (reviews db)))
                    + int (length (filter (\<lambda>r. r_recipientId r = uid) (reviews db))))
                 div (2 * int (length (filter (\<lambda>r. r_recipientId r = uid) (reviews db))))),
            db\<lparr>users := map (\<lambda>u. if u_id u = uid
                then u\<lparr>u_rating :=
                  (2 * sum_list (map r_rating (filter (\<lambda>r. r_recipientId r = uid) (reviews db)))
                     + int (length (filter (\<lambda>r. r_recipientId r = uid) (reviews db))))
                  div (2 * int (length (filter (\<lambda>r. r_recipientId r = uid) (reviews db))))\<rparr>
                else u) (users db)\<rparr>))
   \<and> (\<forall>u r. filter (\<lambda>r. r_recipientId r = uid) (reviews db) \<noteq> []
           \<and> exact_ratings (filter (\<lambda>r. r_recipientId r = uid) (reviews db))
           \<and> find (\<lambda>u. u_id u = uid) (users db) = Some u
           \<and> fst (updateUserRating uid db) = Inr r \<longrightarrow>
         (of_int r :: rat) - 1 / 2
           \<le> of_int (sum_list (map r_rating (filter (\<lambda>r. r_recipientId r = uid) (reviews db))))
              / of_int (int (length (filter (\<lambda>r. r_recipientId r = uid) (reviews db))))
         \<and> of_int (sum_list (map r_rating (filter (\<lambda>r. r_recipientId r = uid) (reviews db))))
              / of_int (int (length (filter (\<lambda>r. r_recipientId r = uid) (reviews db))))
           < (of_int r :: rat) + 1 / 2)
   \<and> (\<forall>u. map r_rating (filter (\<lambda>r. r_recipientId r = uid) (reviews db)) = [5, 4, 3]
           \<and> find (\<lambda>u. u_id u = uid) (users db) = Some u \<longrightarrow>
         updateUserRating uid db =
           (Inr 4, db\<lparr>users := map (\<lambda>u. if u_id u = uid then u\<lparr>u_rating := 4\<rparr> else u)
                                  (users db)\<rparr>))"
proof -
  let ?rs = "filter (\<lambda>r. r_recipientId r = uid) (reviews db)"
  let ?total = "sum_list (map r_rating ?rs)"
  let ?n = "int (length ?rs)"
  have pos: "?rs \<noteq> [] \<Longrightarrow> 0 < ?n"
    by simp
  have rounded: "?rs \<noteq> [] \<Longrightarrow>
      Math_round (of_int ?total / of_int ?n) = (2 * ?total + ?n) div (2 * ?n)"
    by (rule Math_round_quotient) (rule pos)
  have some: "\<And>u. ?rs \<noteq> [] \<Longrightarrow> find (\<lambda>u. u_id u = uid) (users db) = Some u \<Longrightarrow>
      updateUserRating uid db =
        (Inr ((2 * ?total + ?n) div (2 * ?n)),
         db\<lparr>users := map (\<lambda>u. if u_id u = uid
                then u\<lparr>u_rating := (2 * ?total + ?n) div (2 * ?n)\<rparr> else u) (users db)\<rparr>)"
  proof -
    fix u
    assume ne: "?rs \<noteq> []" and found: "find (\<lambda>u. u_id u = uid) (users db) = Some u"
    from updateUserRating_some [OF refl ne found]
    show "updateUserRating uid db =
        (Inr ((2 * ?total + ?n) div (2 * ?n)),
         db\<lparr>users := map (\<lambda>u. if u_id u = uid
                then u\<lparr>u_rating := (2 * ?total + ?n) div (2 * ?n)\<rparr> else u) (users db)\<rparr>)"
      unfolding rounded [OF ne] .
  qed
  have c1: "?rs = [] \<longrightarrow> updateUserRating uid db = (Inr 0, db)"
    by (simp add: updateUserRating_none)
  have c2: "\<forall>u. ?rs \<noteq> [] \<and> exact_ratings ?rs
           \<and> find (\<lambda>u. u_id u = uid) (users db) = Some u \<longrightarrow>
         updateUserRating uid db =
           (Inr ((2 * ?total + ?n) div (2 * ?n)),
            db\<lparr>users := map (\<lambda>u. if u_id u = uid
                then u\<lparr>u_rating := (2 * ?total + ?n) div (2 * ?n)\<rparr> else u) (users db)\<rparr>)"
    using some by blast
  have c3: "\<forall>u r. ?rs \<noteq> [] \<and> exact_ratings ?rs
           \<and> find (\<lambda>u. u_id u = uid) (users db) = Some u
           \<and> fst (updateUserRating uid db) = Inr r \<longrightarrow>
         (of_int r :: rat) - 1 / 2 \<le> of_int ?total / of_int ?n
         \<and> of_int ?total / of_int ?n < (of_int r :: rat) + 1 / 2"
  proof (intro allI impI)
    fix u r
    assume a: "?rs \<noteq> [] \<and> exact_ratings ?rs
           \<and> find (\<lambda>u. u_id u = uid) (users db) = Some u
           \<and> fst (updateUserRating uid db) = Inr r"
    then have "fst (updateUserRating uid db)
        = Inr (Math_round (of_int ?total / of_int ?n))"
      using updateUserRating_some [OF refl, of uid db u] by simp
    with a have "r = Math_round (of_int ?total / of_int ?n)"
      by simp
    then show "(of_int r :: rat) - 1 / 2 \<le> of_int ?total / of_int ?n
         \<and> of_int ?total / of_int ?n < (of_int r :: rat) + 1 / 2"
      using Math_round_nearest [of "of_int ?total / of_int ?n"] by simp
  qed
  have c4: "\<forall>u. map r_rating ?rs = [5, 4, 3]
           \<and> find (\<lambda>u. u_id u = uid) (users db) = Some u \<longrightarrow>
         updateUserRating uid db =
           (Inr 4, db\<lparr>users := map (\<lambda>u. if u_id u = uid then u\<lparr>u_rating := 4\<rparr> else u)
                                  (users db)\<rparr>)"
  proof (intro allI impI)
    fix u
    assume a: "map r_rating ?rs = [5, 4, 3]
           \<and> find (\<lambda>u. u_id u = uid) (users db) = Some u"
    then have ne: "?rs \<noteq> []" by auto
    from a have len: "length ?rs = 3"
      using length_map [of r_rating ?rs] by simp
    from a len have avg: "(2 * ?total + ?n) div (2 * ?n) = 4"
      by simp
    from a have "find (\<lambda>u. u_id u = uid) (users db) = Some u" by simp
    from some [OF ne this]
    show "updateUserRating uid db =
           (Inr 4, db\<lparr>users := map (\<lambda>u. if u_id u = uid then u\<lparr>u_rating := 4\<rparr> else u)
                                  (users db)\<rparr>)"
      by (simp only: avg)
  qed
  from c1 c2 c3 c4 show ?thesis
    by (intro conjI)
qed

text \<open>
  On the example store the mean of 5, 4, 3 is 4. A mean of 4.5 (ratings 4, 5) is rounded
  up to 5, a mean of 13/3 (ratings 4, 4, 5) down to 4 and a mean of 14/3 (ratings 5, 5,
  4) up to 5. A user with no review addressed to them gets 0 and no write.
\<close>

theorem updateUserRating_spec_witness:
  "updateUserRating 1 demo_db = (Inr 4, demo_db\<lparr>users := [demo_user\<lparr>u_rating := 4\<rparr>]\<rparr>)
   \<and> updateUserRating 1 (demo_db\<lparr>reviews := [demo_review 1 4, demo_review 2 5]\<rparr>)
       = (Inr 5, demo_db\<lparr>reviews := [demo_review 1 4, demo_review 2 5],
                         users := [demo_user\<lparr>u_rating := 5\<rparr>]\<rparr>)
   \<and> updateUserRating 1
         (demo_db\<lparr>reviews := [demo_review 1 4, demo_review 2 4, demo_review 3 5]\<rparr>)
       = (Inr 4, demo_db\<lparr>reviews := [demo_review 1 4, demo_review 2 4, demo_review 3 5],
                         users := [demo_user\<lparr>u_rating := 4\<rparr>]\<rparr>)
   \<and> updateUserRating 1
         (demo_db\<lparr>reviews := [demo_review 1 5, demo_review 2 5, demo_review 3 4]\<rparr>)
       = (Inr 5, demo_db\<lparr>reviews := [demo_review 1 5, demo_review 2 5, demo_review 3 4],
                         users := [demo_user\<lparr>u_rating := 5\<rparr>]\<rparr>)
   \<and> updateUserRating 17 demo_db = (Inr 0, demo_db)"
proof -
  have u1: "\<And>rs. find (\<lambda>u. u_id u = 1) (users (demo_db\<lparr>reviews := rs\<rparr>)) = Some demo_user"
    by (simp add: demo_db_def demo_user_def)
  have users: "\<And>rs v. map (\<lambda>u. if u_id u = 1 then u\<lparr>u_rating := v\<rparr> else u)
        (users (demo_db\<lparr>reviews := rs\<rparr>)) = [demo_user\<lparr>u_rating := v\<rparr>]"
    by (simp add: demo_db_def demo_user_def)
  have same: "demo_db\<lparr>reviews := reviews demo_db\<rparr> = demo_db"
    by simp
  have r17: "filter (\<lambda>r. r_recipientId r = 17) (reviews demo_db) = []"
    by (simp add: demo_db_def demo_review_def)
  have rs: "\<And>rs. filter (\<lambda>r. r_recipientId r = 1) (reviews (demo_db\<lparr>reviews := rs\<rparr>))
      = filter (\<lambda>r. r_recipientId r = 1) rs"
    by simp
  have a: "updateUserRating 1 (demo_db\<lparr>reviews := reviews demo_db\<rparr>)
      = (Inr 4, demo_db\<lparr>reviews := reviews demo_db, users := [demo_user\<lparr>u_rating := 4\<rparr>]\<rparr>)"
    using updateUserRating_spec [of 1 "demo_db\<lparr>reviews := reviews demo_db\<rparr>"] u1
    by (simp add: demo_db_def demo_review_def demo_user_def)
  have b: "updateUserRating 1 (demo_db\<lparr>reviews := [demo_review 1 4, demo_review 2 5]\<rparr>)
       = (Inr 5, demo_db\<lparr>reviews := [demo_review 1 4, demo_review 2 5],
                         users := [demo_user\<lparr>u_rating := 5\<rparr>]\<rparr>)"
    using updateUserRating_spec [of 1 "demo_db\<lparr>reviews := [demo_review 1 4, demo_review 2 5]\<rparr>"]
    by (simp add: demo_db_def demo_review_def demo_user_def exact_ratings_def)
  have c: "updateUserRating 1
         (demo_db\<lparr>reviews := [demo_review 1 4, demo_review 2 4, demo_review 3 5]\<rparr>)
       = (Inr 4, demo_db\<lparr>reviews := [demo_review 1 4, demo_review 2 4, demo_review 3 5],
                         users := [demo_user\<lparr>u_rating := 4\<rparr>]\<rparr>)"
    using updateUserRating_spec
      [of 1 "demo_db\<lparr>reviews := [demo_review 1 4, demo_review 2 4, demo_review 3 5]\<rparr>"]
    by (simp add: demo_db_def demo_review_def demo_user_def exact_ratings_def)
  have d: "updateUserRating 1
         (demo_db\<lparr>reviews := [demo_review 1 5, demo_review 2 5, demo_review 3 4]\<rparr>)
       = (Inr 5, demo_db\<lparr>reviews := [demo_review 1 5, demo_review 2 5, demo_review 3 4],
                         users := [demo_user\<lparr>u_rating := 5\<rparr>]\<rparr>)"
    using updateUserRating_spec
      [of 1 "demo_db\<lparr>reviews := [demo_review 1 5, demo_review 2 5, demo_review 3 4]\<rparr>"]
    by (simp add: demo_db_def demo_review_def demo_user_def exact_ratings_def)
  have e: "updateUserRating 17 demo_db = (Inr 0, demo_db)"
    using updateUserRating_spec [of 17 demo_db] r17 by simp
  from a b c d e show ?thesis
    by (simp add: same)
qed
section \<open>Hard deletes\<close>

text \<open>
  C9. \<^verbatim>\<open>deleteTender\<close>, \<^verbatim>\<open>deleteEstimateItem\<close> and \<^verbatim>\<open>deleteCrew\<close> return \<^verbatim>\<open>true\<close> for
  every id. For an id that no row has, the store is unchanged and the result is
  \<^verbatim>\<open>true\<close> all the same.
\<close>

theorem delete_returns_true:
  "fst (deleteTender i db) \<and> fst (deleteEstimateItem i db) \<and> fst (deleteCrew i db)
   \<and> (find (\<lambda>t. t_id t = i) (tenders db) = None \<longrightarrow> deleteTender i db = (True, db))
   \<and> (find (\<lambda>e. ei_id e = i) (estimateItems db) = None \<longrightarrow>
         deleteEstimateItem i db = (True, db))
   \<and> (find (\<lambda>c. c_id c = i) (crews db) = None \<longrightarrow> deleteCrew i db = (True, db))"
proof -
  have keep: "find (\<lambda>r. k r = i) xs = None \<Longrightarrow> filter (\<lambda>r. k r \<noteq> i) xs = xs"
    for k :: "'r \<Rightarrow> int" and xs
    by (induction xs) (auto split: if_splits)
  show ?thesis
    by (simp add: deleteTender_def deleteEstimateItem_def deleteCrew_def delete_where_eq keep)
qed

theorem delete_returns_true_witness:
  "deleteTender 9 demo_db = (True, demo_db) \<and> fst (deleteTender 1 demo_db)
   \<and> tenders (snd (deleteTender 1 demo_db)) = [demo_tender2]
   \<and> deleteEstimateItem 9 demo_db = (True, demo_db)
   \<and> deleteCrew 9 demo_db = (True, demo_db)"
proof -
  have t9: "find (\<lambda>t. t_id t = 9) (tenders demo_db) = None"
    by (simp add: demo_db_def demo_tender_def demo_tender2_def)
  have e9: "find (\<lambda>e. ei_id e = 9) (estimateItems demo_db) = None"
    by (simp add: demo_db_def)
  have c9: "find (\<lambda>c. c_id c = 9) (crews demo_db) = None"
    by (simp add: demo_db_def demo_crew_def demo_crew2_def)
  have rest: "tenders (snd (deleteTender 1 demo_db)) = [demo_tender2]"
    by (simp add: deleteTender_def delete_where_eq demo_db_def demo_tender_def demo_tender2_def)
  show ?thesis
    using delete_returns_true [of 9 demo_db] delete_returns_true [of 1 demo_db] t9 e9 c9 rest
    by simp
qed

section \<open>Conditions and \<^verbatim>\<open>LIKE\<close>\<close>

subsection \<open>The characters of a text\<close>












subsection \<open>A pattern without wildcards between two \<^verbatim>\<open>%\<close>\<close>






text \<open>
  \<^verbatim>\<open>LIKE\<close> on characters, not on units: a title with a character beyond the basic
  plane (U+1F600, two units) between \<^verbatim>\<open>x\<close> and \<^verbatim>\<open>y\<close> matches \<^verbatim>\<open>x_y\<close> and not
  \<^verbatim>\<open>x__y\<close>. A surrogate without its partner in the term is U+FFFD in the pattern. A
  U+0000 ends the text, and the pattern: the term \<^verbatim>\<open>a\<close>, U+0000, \<^verbatim>\<open>b\<close> gives the
  pattern \<^verbatim>\<open>%a\<close>, which matches the texts that end in \<^verbatim>\<open>a\<close>.
\<close>

lemma sqlite_like_characters:
  "sqlite_like True (contains_pattern (js ''x_y'')) [0x78, 0xD83D, 0xDE00, 0x79]"
  "\<not> sqlite_like True (contains_pattern (js ''x__y'')) [0x78, 0xD83D, 0xDE00, 0x79]"
  "sqlite_like True (contains_pattern [0xD800]) [0x61, 0xFFFD]"
  "\<not> sqlite_like True (contains_pattern (js ''b'')) [0x61, 0, 0x62]"
  "sqlite_like True (contains_pattern [0x61, 0, 0x62]) (js ''xa'')"
  "\<not> sqlite_like True (contains_pattern [0x61, 0, 0x62]) (js ''ab'')"
  "sqlite_like False (contains_pattern (js ''HOUSE'')) (js ''House'')"
  "\<not> sqlite_like True (contains_pattern (js ''HOUSE'')) (js ''House'')"
  by (simp_all add: sqlite_like_def contains_pattern_def c_string_def like_fold_def
      is_high_surrogate_def is_low_surrogate_def js_def)

subsection \<open>The conditions of a query\<close>

lemma sql_and_True: "sql_and bs = Some True \<longleftrightarrow> (\<forall>b\<in>set bs. b = Some True)"
proof
  assume a: "sql_and bs = Some True"
  show "\<forall>b\<in>set bs. b = Some True"
  proof
    fix b assume m: "b \<in> set bs"
    from a have nf: "Some False \<notin> set bs" "None \<notin> set bs"
      by (auto simp: sql_and_def split: if_splits)
    show "b = Some True"
    proof (cases b)
      case None
      with m nf show ?thesis by simp
    next
      case (Some x)
      with m nf show ?thesis by (cases x) simp_all
    qed
  qed
next
  assume "\<forall>b\<in>set bs. b = Some True"
  then show "sql_and bs = Some True" by (auto simp: sql_and_def)
qed

lemma sql_or_True: "sql_or bs = Some True \<longleftrightarrow> Some True \<in> set bs"
  by (simp add: sql_or_def)

lemma run_query_filter:
  "run_query conditions rows = filter (\<lambda>r. \<forall>c\<in>set conditions. c r = Some True) rows"
  by (cases conditions) (auto simp: run_query_def select_where_def and_conditions_def sql_and_True)

lemma ball_if_truthy_string:
  "(\<forall>c\<in>set (if_truthy_string v k). c r = Some True)
     \<longleftrightarrow> (case v of None \<Rightarrow> True | Some s \<Rightarrow> s = [] \<or> k s r = Some True)"
  by (cases v) (auto simp: if_truthy_string_def)

lemma ball_if_truthy_number:
  "(\<forall>c\<in>set (if_truthy_number v k). c r = Some True)
     \<longleftrightarrow> (case v of None \<Rightarrow> True | Some n \<Rightarrow> n = 0 \<or> k n r = Some True)"
  by (cases v) (auto simp: if_truthy_number_def)

lemma ball_if_defined:
  "(\<forall>c\<in>set (if_defined v k). c r = Some True)
     \<longleftrightarrow> (case v of None \<Rightarrow> True | Some x \<Rightarrow> k x r = Some True)"
  by (cases v) (auto simp: if_defined_def)

lemma ball_if_length:
  "(\<forall>c\<in>set (if_length v k). c r = Some True)
     \<longleftrightarrow> (case v of None \<Rightarrow> True | Some xs \<Rightarrow> xs = [] \<or> k xs r = Some True)"
  by (cases v) (auto simp: if_length_def)

lemma eq_True: "eq column v r = Some True \<longleftrightarrow> column r = v"
  by (simp add: eq_def)

lemma eq_text_True: "eq_text column v r = Some True \<longleftrightarrow> column r = bind_text v"
  by (simp add: eq_text_def eq_def)

lemma like_True: "like cs column pattern r = Some True \<longleftrightarrow> sqlite_like cs pattern (column r)"
  by (simp add: like_def)

lemma like_nullable_True:
  "like_nullable cs column pattern r = Some True
     \<longleftrightarrow> (case column r of None \<Rightarrow> False | Some text \<Rightarrow> sqlite_like cs pattern text)"
  by (simp add: like_nullable_def split: option.splits)

lemma or_conditions_True:
  "or_conditions conditions r = Some True \<longleftrightarrow> (\<exists>c\<in>set conditions. c r = Some True)"
  unfolding or_conditions_def sql_or_True by (induction conditions) auto

lemmas condition_simps = ball_if_truthy_string ball_if_truthy_number ball_if_defined
  ball_if_length eq_True eq_text_True like_True like_nullable_True or_conditions_True ball_Un

lemma tender_conditions_criteria:
  "(\<forall>c\<in>set (tender_conditions cs f). c t = Some True) \<longleftrightarrow> tender_criteria cs f t"
  unfolding tender_conditions_def tender_criteria_def
  by (simp add: condition_simps split: option.splits)

lemma getTenders_criteria:
  "getTenders (Some f) db =
     map (map_Tender parseArray (\<lambda>p. p))
       (filter (tender_criteria (case_sensitive_like db) f) (tenders db))"
  by (simp add: getTenders_def run_query_filter tender_conditions_criteria)

section \<open>Listing tenders\<close>

lemma tender_criteria_no_filters: "tender_criteria cs no_filters t"
  by (simp add: tender_criteria_def no_filters_def)





section \<open>Tenders by required profession\<close>

lemma filter_rows_total:
  "(\<And>x. x \<in> set xs \<Longrightarrow> p x = Inr (q x)) \<Longrightarrow> filter_rows p xs = Inr (filter q xs)"
  by (induction xs) simp_all

lemma json_includes_array: "json_includes (JArr es) x = Inr (JStr x \<in> set (elements (JArr es)))"
  by (simp add: json_includes_def elements_def)

lemma getTendersByRequiredProfession_arrays:
  assumes "\<forall>t\<in>set (tenders db). \<exists>es. parseArray (t_requiredProfessions t) = JArr es"
  shows "getTendersByRequiredProfession profession db =
     Inr (map (map_Tender parseArray parseArray)
           (filter (\<lambda>t. JStr profession \<in> set (elements (parseArray (t_requiredProfessions t))))
              (tenders db)))"
proof -
  have "filter_rows (\<lambda>tender. json_includes (parseArray (t_requiredProfessions tender)) profession)
          (tenders db)
      = Inr (filter (\<lambda>t. JStr profession \<in> set (elements (parseArray (t_requiredProfessions t))))
              (tenders db))"
  proof (rule filter_rows_total)
    fix x assume "x \<in> set (tenders db)"
    with assms obtain es where "parseArray (t_requiredProfessions x) = JArr es" by blast
    then show "json_includes (parseArray (t_requiredProfessions x)) profession
        = Inr (JStr profession \<in> set (elements (parseArray (t_requiredProfessions x))))"
      by (simp add: json_includes_array)
  qed
  then show ?thesis by (simp add: getTendersByRequiredProfession_def)
qed

lemma demo_professions:
  "parseArray (t_requiredProfessions demo_tender) = JArr [JStr (js ''electrician-helper'')]"
  "parseArray (t_requiredProfessions demo_tender2) = JArr [JStr (js ''electrician''), JStr (js ''mason'')]"
  by (simp_all add: demo_tender_def demo_tender2_def stringify_def parseArray_JSON_stringify)

lemma demo_arrays:
  "\<forall>t\<in>set (tenders demo_db). \<exists>es. parseArray (t_requiredProfessions t) = JArr es"
  by (simp add: demo_db_def demo_professions)

lemma js_electrician: "js ''electrician'' \<noteq> js ''electrician-helper''"
  by (simp add: js_def)

lemma demo_exact:
  "getTendersByRequiredProfession (js ''electrician'') demo_db
     = Inr [map_Tender parseArray parseArray demo_tender2]"
  unfolding getTendersByRequiredProfession_arrays [OF demo_arrays]
  by (simp add: demo_db_def demo_professions elements_def js_electrician)

lemma demo_pushdown:
  "getTenders (Some (no_filters\<lparr>tf_requiredProfessions := Some [js ''electrician'']\<rparr>)) demo_db
     = [map_Tender parseArray (\<lambda>p. p) demo_tender, map_Tender parseArray (\<lambda>p. p) demo_tender2]"
proof -
  have a: "tender_criteria True (no_filters\<lparr>tf_requiredProfessions := Some [js ''electrician'']\<rparr>)
             demo_tender"
    by code_simp
  have b: "tender_criteria True (no_filters\<lparr>tf_requiredProfessions := Some [js ''electrician'']\<rparr>)
             demo_tender2"
    by code_simp
  show ?thesis using a b by (simp add: getTenders_criteria demo_db_def)
qed

text \<open>
  C8 as the spec states it fails on a store where the required professions of a tender
  do not decode to a list. Where the column holds the JSON text of the string
  \<^verbatim>\<open>electrician-helper\<close>, \<^verbatim>\<open>includes\<close> is the substring test of strings, and the
  profession \<^verbatim>\<open>electrician\<close> finds that tender. Where the column of one tender holds
  the JSON text \<^verbatim>\<open>null\<close>, the call raises a \<^verbatim>\<open>TypeError\<close> and returns no tender,
  not even the one that asks for an electrician.
\<close>

theorem getTendersByRequiredProfession_decoded_counterexample:
  "parseArray (t_requiredProfessions string_tender) = JStr (js ''electrician-helper'')
   \<and> getTendersByRequiredProfession (js ''electrician'') (demo_db\<lparr>tenders := [string_tender]\<rparr>)
       = Inr [map_Tender parseArray parseArray string_tender]
   \<and> parseArray (t_requiredProfessions null_tender) = JNull
   \<and> getTendersByRequiredProfession (js ''electrician'')
         (demo_db\<lparr>tenders := [null_tender, demo_tender2]\<rparr>)
       = Inl TypeError"
proof -
  have a: "parseArray (t_requiredProfessions string_tender) = JStr (js ''electrician-helper'')"
    by code_simp
  have b: "str_includes (js ''electrician-helper'') (js ''electrician'')"
    by code_simp
  have c: "parseArray (t_requiredProfessions null_tender) = JNull"
    by code_simp
  from a b c show ?thesis
    by (simp add: getTendersByRequiredProfession_def json_includes_def)
qed

text \<open>
  C8, amended. On a store where the required professions of every tender decode to a list,
  \<^verbatim>\<open>getTendersByRequiredProfession\<close> returns exactly the tenders whose decoded list has
  the profession as a member (with images and professions decoded), after reading all
  rows. On the example store \<^verbatim>\<open>electrician\<close> finds the tender that asks for an
  electrician and not the one that asks for an \<^verbatim>\<open>electrician-helper\<close>, while the
  \<^verbatim>\<open>requiredProfessions\<close> filter of \<^verbatim>\<open>getTenders\<close>, a \<^verbatim>\<open>LIKE\<close> on the stored text,
  returns both.
\<close>

theorem getTendersByRequiredProfession_exact:
  "((\<forall>t\<in>set (tenders db). \<exists>es. parseArray (t_requiredProfessions t) = JArr es) \<longrightarrow>
      getTendersByRequiredProfession profession db =
        Inr (map (map_Tender parseArray parseArray)
              (filter (\<lambda>t. JStr profession
                             \<in> set (elements (parseArray (t_requiredProfessions t))))
                 (tenders db))))
   \<and> getTendersByRequiredProfession (js ''electrician'') demo_db
       = Inr [map_Tender parseArray parseArray demo_tender2]
   \<and> getTenders (Some (no_filters\<lparr>tf_requiredProfessions := Some [js ''electrician'']\<rparr>)) demo_db
       = [map_Tender parseArray (\<lambda>p. p) demo_tender, map_Tender parseArray (\<lambda>p. p) demo_tender2]"
  using getTendersByRequiredProfession_arrays [of db profession] demo_exact demo_pushdown
  by blast

theorem getTendersByRequiredProfession_exact_witness:
  "getTendersByRequiredProfession (js ''mason'') demo_db
     = Inr [map_Tender parseArray parseArray demo_tender2]
   \<and> getTendersByRequiredProfession (js ''helper'') demo_db = Inr []"
proof -
  have m: "js ''mason'' \<noteq> js ''electrician-helper'' \<and> js ''mason'' \<noteq> js ''electrician''
      \<and> js ''helper'' \<noteq> js ''electrician-helper'' \<and> js ''helper'' \<noteq> js ''electrician''
      \<and> js ''helper'' \<noteq> js ''mason''"
    by (simp add: js_def)
  show ?thesis
    using getTendersByRequiredProfession_exact [of demo_db "js ''mason''"]
      getTendersByRequiredProfession_exact [of demo_db "js ''helper''"] demo_arrays m
    by (simp add: demo_db_def demo_professions elements_def)
qed

section \<open>Falsy criteria\<close>

lemma l_price_map_Listing: "l_price (map_Listing f l) = l_price l"
  by (simp add: map_Listing_def)

lemma filter_filter_conj: "filter P (filter Q xs) = filter (\<lambda>x. P x \<and> Q x) xs"
  by (induction xs) simp_all

lemma listings_price:
  "getMarketplaceListings (Some (g\<lparr>lf_minPrice := lo, lf_maxPrice := hi\<rparr>)) db =
     filter (\<lambda>l. (case lo of None \<Rightarrow> True | Some a \<Rightarrow> a \<le> l_price l)
                \<and> (case hi of None \<Rightarrow> True | Some b \<Rightarrow> l_price l \<le> b))
       (getMarketplaceListings (Some (g\<lparr>lf_minPrice := None, lf_maxPrice := None\<rparr>)) db)"
proof -
  let ?P = "\<lambda>p. (case lo of None \<Rightarrow> True | Some a \<Rightarrow> a \<le> p)
                \<and> (case hi of None \<Rightarrow> True | Some b \<Rightarrow> p \<le> b)"
  have price: "(\<forall>c\<in>set (price_conditions lo hi). c r = Some True) \<longleftrightarrow> ?P (l_price r)" for r
    by (simp add: price_conditions_def ge_def le_def between_def split: option.splits)
  have none: "price_conditions None None = []"
    by (simp add: price_conditions_def)
  have "run_query (listing_conditions (case_sensitive_like db)
                     (g\<lparr>lf_minPrice := lo, lf_maxPrice := hi\<rparr>)) (marketplaceListings db)
      = filter (\<lambda>l. ?P (l_price l))
          (run_query (listing_conditions (case_sensitive_like db)
                        (g\<lparr>lf_minPrice := None, lf_maxPrice := None\<rparr>))
             (marketplaceListings db))"
    unfolding run_query_filter filter_filter_conj
  proof (intro filter_cong refl)
    fix x
    show "(\<forall>c\<in>set (listing_conditions (case_sensitive_like db)
                        (g\<lparr>lf_minPrice := lo, lf_maxPrice := hi\<rparr>)). c x = Some True)
        = (?P (l_price x)
           \<and> (\<forall>c\<in>set (listing_conditions (case_sensitive_like db)
                          (g\<lparr>lf_minPrice := None, lf_maxPrice := None\<rparr>)). c x = Some True))"
      unfolding listing_conditions_def set_append ball_Un
      by (simp add: price none) blast
  qed
  then show ?thesis
    by (simp add: getMarketplaceListings_def filter_map comp_def l_price_map_Listing
        cong: option.case_cong)
qed

lemma crews_flag:
  "getCrews (Some (h\<lparr>cf_isVerified := Some v\<rparr>)) db
     = filter (\<lambda>c. c_isVerified c = v) (getCrews (Some (h\<lparr>cf_isVerified := None\<rparr>)) db)"
  "getCrews (Some (h\<lparr>cf_isAvailable := Some v\<rparr>)) db
     = filter (\<lambda>c. c_isAvailable c = v) (getCrews (Some (h\<lparr>cf_isAvailable := None\<rparr>)) db)"
proof -
  show "getCrews (Some (h\<lparr>cf_isVerified := Some v\<rparr>)) db
     = filter (\<lambda>c. c_isVerified c = v) (getCrews (Some (h\<lparr>cf_isVerified := None\<rparr>)) db)"
    unfolding getCrews_def option.case run_query_filter filter_filter_conj
              crew_conditions_def set_append ball_Un
    by (intro filter_cong refl) (simp add: ball_if_defined eq_True, blast)
  show "getCrews (Some (h\<lparr>cf_isAvailable := Some v\<rparr>)) db
     = filter (\<lambda>c. c_isAvailable c = v) (getCrews (Some (h\<lparr>cf_isAvailable := None\<rparr>)) db)"
    unfolding getCrews_def option.case run_query_filter filter_filter_conj
              crew_conditions_def set_append ball_Un
    by (intro filter_cong refl) (simp add: ball_if_defined eq_True, blast)
qed

text \<open>
  C10. A user id of 0 and an empty category are treated as absent in \<^verbatim>\<open>getTenders\<close>,
  and a user id of 0 in \<^verbatim>\<open>getMarketplaceListings\<close>: the call returns what the call
  without the criterion returns. The price bounds of \<^verbatim>\<open>getMarketplaceListings\<close> are
  applied also at 0 (a lower bound, an upper bound, or both as an inclusive range), and
  the flags \<^verbatim>\<open>isVerified\<close> and \<^verbatim>\<open>isAvailable\<close> of \<^verbatim>\<open>getCrews\<close> also at
  \<^verbatim>\<open>false\<close>.
\<close>

theorem falsy_criteria:
  "getTenders (Some (f\<lparr>tf_userId := Some 0\<rparr>)) db = getTenders (Some (f\<lparr>tf_userId := None\<rparr>)) db
   \<and> getTenders (Some (f\<lparr>tf_category := Some []\<rparr>)) db
       = getTenders (Some (f\<lparr>tf_category := None\<rparr>)) db
   \<and> getMarketplaceListings (Some (g\<lparr>lf_userId := Some 0\<rparr>)) db
       = getMarketplaceListings (Some (g\<lparr>lf_userId := None\<rparr>)) db
   \<and> getMarketplaceListings (Some (g\<lparr>lf_minPrice := Some 0, lf_maxPrice := None\<rparr>)) db
       = filter (\<lambda>l. 0 \<le> l_price l)
           (getMarketplaceListings (Some (g\<lparr>lf_minPrice := None, lf_maxPrice := None\<rparr>)) db)
   \<and> getMarketplaceListings (Some (g\<lparr>lf_minPrice := None, lf_maxPrice := Some 0\<rparr>)) db
       = filter (\<lambda>l. l_price l \<le> 0)
           (getMarketplaceListings (Some (g\<lparr>lf_minPrice := None, lf_maxPrice := None\<rparr>)) db)
   \<and> getMarketplaceListings (Some (g\<lparr>lf_minPrice := Some lo, lf_maxPrice := Some hi\<rparr>)) db
       = filter (\<lambda>l. lo \<le> l_price l \<and> l_price l \<le> hi)
           (getMarketplaceListings (Some (g\<lparr>lf_minPrice := None, lf_maxPrice := None\<rparr>)) db)
   \<and> getCrews (Some (h\<lparr>cf_isVerified := Some False\<rparr>)) db
       = filter (\<lambda>c. \<not> c_isVerified c) (getCrews (Some (h\<lparr>cf_isVerified := None\<rparr>)) db)
   \<and> getCrews (Some (h\<lparr>cf_isAvailable := Some False\<rparr>)) db
       = filter (\<lambda>c. \<not> c_isAvailable c) (getCrews (Some (h\<lparr>cf_isAvailable := None\<rparr>)) db)"
proof -
  have t1: "getTenders (Some (f\<lparr>tf_userId := Some 0\<rparr>)) db
      = getTenders (Some (f\<lparr>tf_userId := None\<rparr>)) db"
    by (simp add: getTenders_def tender_conditions_def if_truthy_number_def)
  have t2: "getTenders (Some (f\<lparr>tf_category := Some []\<rparr>)) db
      = getTenders (Some (f\<lparr>tf_category := None\<rparr>)) db"
    by (simp add: getTenders_def tender_conditions_def if_truthy_string_def)
  have l1: "getMarketplaceListings (Some (g\<lparr>lf_userId := Some 0\<rparr>)) db
      = getMarketplaceListings (Some (g\<lparr>lf_userId := None\<rparr>)) db"
    by (simp add: getMarketplaceListings_def listing_conditions_def if_truthy_number_def)
  show ?thesis
    using t1 t2 l1 listings_price [where g = g and lo = "Some 0" and hi = None and db = db]
      listings_price [where g = g and lo = None and hi = "Some 0" and db = db]
      listings_price [where g = g and lo = "Some lo" and hi = "Some hi" and db = db]
      crews_flag [where h = h and v = False and db = db]
    by simp
qed

theorem falsy_criteria_witness:
  "getTenders (Some (no_filters\<lparr>tf_userId := Some 0\<rparr>)) demo_db = getTenders None demo_db
   \<and> map l_id (getMarketplaceListings (Some (no_listing_filters\<lparr>lf_maxPrice := Some 0\<rparr>)) demo_db)
       = [1]
   \<and> map l_id (getMarketplaceListings (Some no_listing_filters) demo_db) = [1, 2]
   \<and> getCrews (Some (no_crew_filters\<lparr>cf_isVerified := Some False\<rparr>)) demo_db = [demo_crew2]
   \<and> getCrews (Some no_crew_filters) demo_db = [demo_crew, demo_crew2]"
proof -
  note F = falsy_criteria [of no_filters demo_db no_listing_filters 0 0 no_crew_filters]
  have nf: "no_filters\<lparr>tf_userId := None\<rparr> = no_filters"
    by (simp add: no_filters_def)
  have nl: "no_listing_filters\<lparr>lf_minPrice := None, lf_maxPrice := None\<rparr> = no_listing_filters"
    "no_listing_filters\<lparr>lf_minPrice := None, lf_maxPrice := Some 0\<rparr>
       = no_listing_filters\<lparr>lf_maxPrice := Some 0\<rparr>"
    by (simp_all add: no_listing_filters_def)
  have nc: "no_crew_filters\<lparr>cf_isVerified := None\<rparr> = no_crew_filters"
    by (simp add: no_crew_filters_def)
  have "getTenders None demo_db = map (map_Tender parseArray (\<lambda>p. p)) (tenders demo_db)"
    by (simp add: getTenders_def)
  then have all_t: "getTenders (Some no_filters) demo_db = getTenders None demo_db"
    by (simp add: getTenders_criteria tender_criteria_no_filters)
  have all_l: "map l_id (getMarketplaceListings (Some no_listing_filters) demo_db) = [1, 2]"
    by (simp add: getMarketplaceListings_def listing_conditions_def no_listing_filters_def
        if_truthy_string_def if_truthy_number_def price_conditions_def run_query_def
        demo_db_def demo_listing_def demo_listing2_def map_Listing_def)
  have all_c: "getCrews (Some no_crew_filters) demo_db = [demo_crew, demo_crew2]"
    by (simp add: getCrews_def crew_conditions_def no_crew_filters_def
        if_truthy_string_def if_defined_def run_query_def demo_db_def)
  have prices: "l_price demo_listing = 0" "l_price demo_listing2 = 400"
    by (simp_all add: demo_listing_def demo_listing2_def)
  have flags: "c_isVerified demo_crew" "\<not> c_isVerified demo_crew2"
    by (simp_all add: demo_crew_def demo_crew2_def)
  from F have "getTenders (Some (no_filters\<lparr>tf_userId := Some 0\<rparr>)) demo_db
      = getTenders (Some (no_filters\<lparr>tf_userId := None\<rparr>)) demo_db" by blast
  then have g1: "getTenders (Some (no_filters\<lparr>tf_userId := Some 0\<rparr>)) demo_db
      = getTenders None demo_db"
    by (simp add: nf all_t)
  from F have "getMarketplaceListings
        (Some (no_listing_filters\<lparr>lf_minPrice := None, lf_maxPrice := Some 0\<rparr>)) demo_db
       = filter (\<lambda>l. l_price l \<le> 0)
           (getMarketplaceListings
              (Some (no_listing_filters\<lparr>lf_minPrice := None, lf_maxPrice := None\<rparr>)) demo_db)"
    by blast
  then have g2: "map l_id (getMarketplaceListings
        (Some (no_listing_filters\<lparr>lf_maxPrice := Some 0\<rparr>)) demo_db) = [1]"
    by (simp add: nl getMarketplaceListings_def listing_conditions_def no_listing_filters_def
        if_truthy_string_def if_truthy_number_def price_conditions_def run_query_def
        demo_db_def demo_listing_def demo_listing2_def map_Listing_def)
  from F have "getCrews (Some (no_crew_filters\<lparr>cf_isVerified := Some False\<rparr>)) demo_db
       = filter (\<lambda>c. \<not> c_isVerified c)
           (getCrews (Some (no_crew_filters\<lparr>cf_isVerified := None\<rparr>)) demo_db)"
    by blast
  then have g3: "getCrews (Some (no_crew_filters\<lparr>cf_isVerified := Some False\<rparr>)) demo_db
      = [demo_crew2]"
    by (simp add: nc all_c flags)
  from g1 g2 g3 all_l all_c show ?thesis by simp
qed

end

